theory Spec2Isabelle
  imports Complex_Main
begin

section \<open>Python values\<close>

text \<open>
  The matching pipeline of \<^verbatim>\<open>src/matching/opportunity_matcher.py\<close> passes around values
  whose Python type is decided at run time: the JSON documents returned by the language
  model, the attributes of the profile object, the raw relevance score. They are embedded
  as one datatype of Python values.

  A float is a finite value, an infinity or NaN. The pipeline never does arithmetic on a
  float: it only compares them (\<^verbatim>\<open>min\<close>, \<^verbatim>\<open>max\<close>, \<^verbatim>\<open>>=\<close>, the sort), and a comparison of
  finite floats is the comparison of the real numbers they denote. So a finite float is
  embedded as the real number it denotes, and no rounding enters the model.

  A string is the list of its characters, one \<^typ>\<open>char\<close> for each code point.
\<close>

datatype pyfloat = Fin real | PInf | NInf | NaN

datatype pyval =
    PNone
  | PBool bool
  | PInt int
  | PFloat pyfloat
  | PStr string
  | PList "pyval list"
  | PDict "(string \<times> pyval) list"
  | PObj string string

text \<open>
  \<open>PDict\<close> keeps the items of a \<^verbatim>\<open>dict\<close> in insertion order, each key once; \<open>PObj c r\<close>
  is any other object (an enum member, say), of the class named \<open>c\<close>, with the \<^verbatim>\<open>repr\<close> \<open>r\<close>.
\<close>

fun type_name :: "pyval \<Rightarrow> string" where
  "type_name PNone = ''NoneType''"
| "type_name (PBool _) = ''bool''"
| "type_name (PInt _) = ''int''"
| "type_name (PFloat _) = ''float''"
| "type_name (PStr _) = ''str''"
| "type_name (PList _) = ''list''"
| "type_name (PDict _) = ''dict''"
| "type_name (PObj c _) = c"

subsection \<open>Exceptions\<close>

text \<open>
  Every exception of the model is an instance of \<^verbatim>\<open>Exception\<close>, which is what the
  \<^verbatim>\<open>except Exception\<close> clauses of the source catch. \<open>AttributeError t a\<close>: an object of
  type \<open>t\<close> has no attribute \<open>a\<close>. \<open>Raised msg\<close>: an exception \<open>e\<close> raised by the API
  client or by \<^verbatim>\<open>json.loads\<close>, with \<^verbatim>\<open>str(e)\<close> = \<open>msg\<close>.
\<close>

datatype pyerr =
    AttributeError string string
  | TypeError string
  | Raised string

definition quoted :: "string \<Rightarrow> string" where
  "quoted s = [CHR 0x27] @ s @ [CHR 0x27]"

fun str_exc :: "pyerr \<Rightarrow> string" where
  "str_exc (AttributeError t a) = quoted t @ '' object has no attribute '' @ quoted a"
| "str_exc (TypeError msg) = msg"
| "str_exc (Raised msg) = msg"

definition bind_err :: "pyerr + 'a \<Rightarrow> ('a \<Rightarrow> pyerr + 'b) \<Rightarrow> pyerr + 'b" where
  "bind_err r f = (case r of Inl e \<Rightarrow> Inl e | Inr v \<Rightarrow> f v)"

subsection \<open>Built-ins the source calls\<close>

text \<open>
  \<^verbatim>\<open>str()\<close> of a value that is not a string (as an f-string applies it) and
  \<^verbatim>\<open>json.loads\<close> belong to the Python library, not to the repository: they are parameters
  of the model. \<open>json_loads env s = Inl msg\<close> is a raised exception with that message.
\<close>

record pyenv =
  str_of :: "pyval \<Rightarrow> string"
  json_loads :: "string \<Rightarrow> string + pyval"

definition format_value :: "pyenv \<Rightarrow> pyval \<Rightarrow> string" where
  "format_value env v = (case v of PStr s \<Rightarrow> s | _ \<Rightarrow> str_of env v)"

fun join_strs :: "string \<Rightarrow> string list \<Rightarrow> string" where
  "join_strs sep [] = []"
| "join_strs sep [s] = s"
| "join_strs sep (s # t # ss) = s @ sep @ join_strs sep (t # ss)"

text \<open>\<^verbatim>\<open>d.get(k, default)\<close>: only a \<^verbatim>\<open>dict\<close> has the method.\<close>

definition dict_get :: "pyval \<Rightarrow> string \<Rightarrow> pyval \<Rightarrow> pyerr + pyval" where
  "dict_get d k dflt =
     (case d of
        PDict kvs \<Rightarrow> Inr (case map_of kvs k of None \<Rightarrow> dflt | Some v \<Rightarrow> v)
      | _ \<Rightarrow> Inl (AttributeError (type_name d) ''get''))"

subsection \<open>Comparing numbers\<close>

text \<open>
  Python compares \<^verbatim>\<open>bool\<close>, \<^verbatim>\<open>int\<close> and \<^verbatim>\<open>float\<close> with each other by their exact numeric
  value; every comparison with NaN is false. Any other value against a float raises
  \<^verbatim>\<open>TypeError\<close>.
\<close>

fun fl_lt :: "pyfloat \<Rightarrow> pyfloat \<Rightarrow> bool" where
  "fl_lt NaN _ = False"
| "fl_lt _ NaN = False"
| "fl_lt (Fin a) (Fin b) = (a < b)"
| "fl_lt (Fin _) PInf = True"
| "fl_lt (Fin _) NInf = False"
| "fl_lt PInf _ = False"
| "fl_lt NInf NInf = False"
| "fl_lt NInf _ = True"

fun fl_ge :: "pyfloat \<Rightarrow> pyfloat \<Rightarrow> bool" where
  "fl_ge NaN _ = False"
| "fl_ge _ NaN = False"
| "fl_ge a b = (\<not> fl_lt a b)"

fun num_of :: "pyval \<Rightarrow> pyfloat option" where
  "num_of (PBool b) = Some (Fin (if b then 1 else 0))"
| "num_of (PInt i) = Some (Fin (of_int i))"
| "num_of (PFloat x) = Some x"
| "num_of _ = None"

text \<open>
  \<^verbatim>\<open>min(a, x)\<close> keeps \<open>a\<close> unless \<^verbatim>\<open>x < a\<close>; \<^verbatim>\<open>max(a, x)\<close> keeps \<open>a\<close> unless
  \<^verbatim>\<open>x > a\<close>.
\<close>

definition py_min :: "pyfloat \<Rightarrow> pyfloat \<Rightarrow> pyfloat" where
  "py_min a x = (if fl_lt x a then x else a)"

definition py_max :: "pyfloat \<Rightarrow> pyfloat \<Rightarrow> pyfloat" where
  "py_max a x = (if fl_lt a x then x else a)"

text \<open>
  \<^verbatim>\<open>max(0.0, min(1.0, raw))\<close> on the value the oracle gave. Where the result is \<open>raw\<close>
  itself, \<open>raw\<close> lies strictly between 0 and 1, so it is a float and not an \<^verbatim>\<open>int\<close> or a
  \<^verbatim>\<open>bool\<close>: the result is typed as a float.
\<close>

definition clamp_score :: "pyval \<Rightarrow> pyerr + pyfloat" where
  "clamp_score raw =
     (case num_of raw of
        None \<Rightarrow> Inl (TypeError (quoted ''<'' @ '' not supported between instances of ''
                        @ quoted (type_name raw) @ '' and '' @ quoted ''float''))
      | Some x \<Rightarrow> Inr (py_max (Fin 0) (py_min (Fin 1) x)))"

section \<open>The data model\<close>

type_synonym datetime = nat

record Opportunity =
  opp_id :: string
  title :: string
  description :: string
  content :: string
  source :: string
  source_url :: string
  opportunity_type :: string
  tags :: "string list"
  published_at :: datetime
  metadata :: "(string \<times> pyval) list"

text \<open>
  A \<^verbatim>\<open>Match\<close> is a dataclass whose fields Python does not type-check: \<open>company_id\<close>
  receives whatever the profile's \<^verbatim>\<open>company_name\<close> is, \<open>reasoning\<close> whatever the oracle's
  JSON holds under that key.
\<close>

record Match =
  company_id :: pyval
  opportunity_id :: string
  relevance_score :: pyfloat
  reasoning :: pyval
  match_status :: string
  created_at :: "datetime option"

section \<open>The chat-completion client\<close>

text \<open>
  One call of \<^verbatim>\<open>self.client.chat.completions.create(...)\<close> followed by
  \<^verbatim>\<open>response.choices[0].message.content\<close>: \<open>Inl msg\<close> when either raises an exception
  with that message, \<open>Inr content\<close> otherwise, the content being \<^verbatim>\<open>None\<close> or a string.
  The language model may answer the same request differently each time, so a run receives
  one such function for each call it makes.
\<close>

record request =
  model :: string
  system_content :: string
  user_content :: string
  response_format :: string
  temperature :: real

type_synonym completion = "request \<Rightarrow> string + string option"

section \<open>Relevance Scorer\<close>

definition nl :: string where
  "nl = [CHR 0x0A]"

definition indent :: string where
  "indent = ''        ''"

definition ln :: "string \<Rightarrow> string" where
  "ln s = indent @ s @ nl"

definition content_preview :: "Opportunity \<Rightarrow> string" where
  "content_preview opportunity =
     (if content opportunity \<noteq> [] then take 500 (content opportunity) else ''No content'')"

definition scoring_prompt_tail :: string where
  "scoring_prompt_tail = nl @ concat
     [ln '''',
      ln ''Analyze relevance considering:'',
      ln ''1. Industry alignment and market fit'',
      ln ''2. Business stage appropriateness'',
      ln ''3. Geographic relevance'',
      ln ''4. Potential business impact'',
      ln ''5. Timing and urgency'',
      ln '''',
      ln ''Return JSON with:'',
      ln ''- relevance_score: float between 0.0 and 1.0 (1.0 = highly relevant)'',
      ln ''- reasoning: detailed explanation of why this opportunity matches or doesn't match'',
      ln ''- key_match_factors: array of specific reasons for the score'',
      ln ''- actionability: how actionable this opportunity is for the company'',
      ln '''',
      ln ''Be strict with scoring - only score above 0.7 for highly relevant opportunities.'']
     @ indent"

text \<open>
  The prompt up to and including \<^verbatim>\<open>Content Preview: \<close>. The six \<^verbatim>\<open>.get\<close> calls raise
  \<^verbatim>\<open>AttributeError\<close> when the analysis is not a \<^verbatim>\<open>dict\<close>.
\<close>

definition scoring_prompt_head :: "pyenv \<Rightarrow> pyval \<Rightarrow> Opportunity \<Rightarrow> pyerr + string" where
  "scoring_prompt_head env company_analysis opportunity =
     bind_err (dict_get company_analysis ''industry_focus'' (PStr ''Unknown'')) (\<lambda>industry_focus.
     bind_err (dict_get company_analysis ''business_stage'' (PStr ''Unknown'')) (\<lambda>business_stage.
     bind_err (dict_get company_analysis ''target_customers'' (PStr ''Unknown'')) (\<lambda>target_customers.
     bind_err (dict_get company_analysis ''growth_priorities'' (PStr ''Unknown'')) (\<lambda>growth_priorities.
     bind_err (dict_get company_analysis ''technology_adoption'' (PStr ''Unknown'')) (\<lambda>technology_adoption.
     bind_err (dict_get company_analysis ''geographic_scope'' (PStr ''Unknown'')) (\<lambda>geographic_scope.
     Inr (nl @ concat
       [ln ''Analyze the relevance of this business opportunity for the company:'',
        ln '''',
        ln ''Company Profile:'',
        ln (''Industry Focus: '' @ format_value env industry_focus),
        ln (''Business Stage: '' @ format_value env business_stage),
        ln (''Target Customers: '' @ format_value env target_customers),
        ln (''Growth Priorities: '' @ format_value env growth_priorities),
        ln (''Technology Adoption: '' @ format_value env technology_adoption),
        ln (''Geographic Scope: '' @ format_value env geographic_scope),
        ln '''',
        ln ''Opportunity:'',
        ln (''Title: '' @ title opportunity),
        ln (''Description: '' @ description opportunity),
        ln (''Type: '' @ opportunity_type opportunity),
        ln (''Source: '' @ source opportunity),
        ln (''Tags: '' @ join_strs '', '' (tags opportunity))]
       @ indent @ ''Content Preview: '')))))))"

definition scoring_prompt :: "pyenv \<Rightarrow> pyval \<Rightarrow> Opportunity \<Rightarrow> pyerr + string" where
  "scoring_prompt env company_analysis opportunity =
     bind_err (scoring_prompt_head env company_analysis opportunity) (\<lambda>head.
     Inr (head @ content_preview opportunity @ scoring_prompt_tail))"

definition scoring_request :: "string \<Rightarrow> request" where
  "scoring_request prompt =
     \<lparr>model = ''gpt-4o'',
      system_content = ''You are a business opportunity analyst. Provide precise relevance scoring with detailed reasoning. Respond only with valid JSON.'',
      user_content = prompt,
      response_format = ''json_object'',
      temperature = 3602879701896397 / 18014398509481984\<rparr>"

definition raised :: "string + 'a \<Rightarrow> pyerr + 'a" where
  "raised r = (case r of Inl msg \<Rightarrow> Inl (Raised msg) | Inr v \<Rightarrow> Inr v)"

text \<open>The body of the \<^verbatim>\<open>try\<close> block of \<^verbatim>\<open>score_opportunity_relevance\<close>.\<close>

definition score_try :: "pyenv \<Rightarrow> completion \<Rightarrow> datetime \<Rightarrow> string \<Rightarrow> Opportunity \<Rightarrow> pyerr + Match" where
  "score_try env create now prompt opportunity =
     bind_err (raised (create (scoring_request prompt))) (\<lambda>content.
     bind_err (case content of
                 None \<Rightarrow> Inr (PDict [(''relevance_score'', PFloat (Fin 0)),
                                      (''reasoning'', PStr ''No analysis available'')])
               | Some c \<Rightarrow>
                   if c \<noteq> [] then raised (json_loads env c)
                   else Inr (PDict [(''relevance_score'', PFloat (Fin 0)),
                                    (''reasoning'', PStr ''No analysis available'')])) (\<lambda>scoring.
     bind_err (dict_get scoring ''relevance_score'' (PFloat (Fin 0))) (\<lambda>raw_score.
     bind_err (clamp_score raw_score) (\<lambda>score.
     bind_err (dict_get scoring ''reasoning'' (PStr ''AI analysis completed'')) (\<lambda>reason.
     Inr \<lparr>company_id = PStr ''placeholder'',
          opportunity_id = opp_id opportunity,
          relevance_score = score,
          reasoning = reason,
          match_status = ''pending'',
          created_at = Some now\<rparr>)))))"

text \<open>
  The prompt is built before the \<^verbatim>\<open>try\<close>, so an exception there reaches the caller; an
  exception inside the \<^verbatim>\<open>try\<close> becomes the zero-score \<^verbatim>\<open>Match\<close> of the handler. \<open>now\<close> is
  what \<^verbatim>\<open>datetime.now()\<close> returns in this call. The calls of the logger write to the log
  and return; they are left out.
\<close>

definition score_opportunity_relevance ::
  "pyenv \<Rightarrow> completion \<Rightarrow> datetime \<Rightarrow> pyval \<Rightarrow> Opportunity \<Rightarrow> pyerr + Match" where
  "score_opportunity_relevance env create now company_analysis opportunity =
     bind_err (scoring_prompt env company_analysis opportunity) (\<lambda>prompt.
     Inr (case score_try env create now prompt opportunity of
            Inr match \<Rightarrow> match
          | Inl e \<Rightarrow>
              \<lparr>company_id = PStr ''placeholder'',
               opportunity_id = opp_id opportunity,
               relevance_score = Fin 0,
               reasoning = PStr (''Analysis unavailable: '' @ str_exc e),
               match_status = ''pending'',
               created_at = Some now\<rparr>))"

text \<open>
  What the oracle answered in this call of the scorer (an exception of the client is
  \<open>Inl (Raised msg)\<close>): the first step of \<open>score_try\<close>, on the prompt the scorer builds.
\<close>

definition oracle_reply :: "pyenv \<Rightarrow> completion \<Rightarrow> pyval \<Rightarrow> Opportunity \<Rightarrow> pyerr + string option" where
  "oracle_reply env create company_analysis opportunity =
     bind_err (scoring_prompt env company_analysis opportunity) (\<lambda>prompt.
     raised (create (scoring_request prompt)))"

section \<open>Profile Analyzer\<close>

text \<open>
  The analyzer reads eight attributes of the profile object it is given. Python looks an
  attribute up by name at run time, so the object is embedded as its class name and its
  attributes.
\<close>

record pyobject =
  class_name :: string
  attrs :: "(string \<times> pyval) list"

definition getattr :: "pyobject \<Rightarrow> string \<Rightarrow> pyerr + pyval" where
  "getattr obj a =
     (case map_of (attrs obj) a of
        None \<Rightarrow> Inl (AttributeError (class_name obj) a)
      | Some v \<Rightarrow> Inr v)"

text \<open>
  \<^verbatim>\<open>sep.join(v)\<close>: \<open>v\<close> must be iterable and each item a \<^verbatim>\<open>str\<close>. A string iterates
  over its characters, a \<^verbatim>\<open>dict\<close> over its keys.
\<close>

fun join_items :: "pyenv \<Rightarrow> nat \<Rightarrow> pyval list \<Rightarrow> pyerr + string list" where
  "join_items env i [] = Inr []"
| "join_items env i (PStr s # vs) =
     bind_err (join_items env (Suc i) vs) (\<lambda>ss. Inr (s # ss))"
| "join_items env i (v # vs) =
     Inl (TypeError (''sequence item '' @ str_of env (PInt (int i))
            @ '': expected str instance, '' @ type_name v @ '' found''))"

definition str_join :: "pyenv \<Rightarrow> string \<Rightarrow> pyval \<Rightarrow> pyerr + string" where
  "str_join env sep v =
     (case v of
        PList vs \<Rightarrow> bind_err (join_items env 0 vs) (\<lambda>ss. Inr (join_strs sep ss))
      | PStr s \<Rightarrow> Inr (join_strs sep (map (\<lambda>c. [c]) s))
      | PDict kvs \<Rightarrow> Inr (join_strs sep (map fst kvs))
      | _ \<Rightarrow> Inl (TypeError ''can only join an iterable''))"

definition profile_text :: "pyenv \<Rightarrow> pyobject \<Rightarrow> pyerr + string" where
  "profile_text env profile =
     bind_err (getattr profile ''company_name'') (\<lambda>v_company_name.
     bind_err (getattr profile ''industry'') (\<lambda>v_industry.
     bind_err (getattr profile ''business_type'') (\<lambda>v_business_type.
     bind_err (getattr profile ''company_size'') (\<lambda>v_company_size.
     bind_err (getattr profile ''description'') (\<lambda>v_description.
     bind_err (getattr profile ''services'') (\<lambda>v_services.
     bind_err (str_join env '', '' v_services) (\<lambda>services_text.
     bind_err (getattr profile ''target_markets'') (\<lambda>v_target_markets.
     bind_err (str_join env '', '' v_target_markets) (\<lambda>target_markets_text.
     bind_err (getattr profile ''key_challenges'') (\<lambda>v_key_challenges.
     bind_err (str_join env '', '' v_key_challenges) (\<lambda>key_challenges_text.
     Inr (nl @ concat
       [ln (''Company: '' @ format_value env v_company_name),
        ln (''Industry: '' @ format_value env v_industry),
        ln (''Business Type: '' @ format_value env v_business_type),
        ln (''Company Size: '' @ format_value env v_company_size),
        ln (''Description: '' @ format_value env v_description),
        ln (''Services: '' @ services_text),
        ln (''Target Markets: '' @ target_markets_text),
        ln (''Key Challenges: '' @ key_challenges_text)]
       @ indent))))))))))))"

definition analysis_prompt :: "string \<Rightarrow> string" where
  "analysis_prompt ptext = nl @ concat
     [ln ''Analyze this business profile and extract key characteristics for opportunity matching:'',
      ln '''',
      ln ptext,
      ln '''',
      ln ''Return JSON with:'',
      ln ''- industry_focus: primary industry category'',
      ln ''- business_stage: startup/growth/established/enterprise'',
      ln ''- target_customers: key customer segments'',
      ln ''- growth_priorities: main areas for business growth'',
      ln ''- technology_adoption: low/medium/high tech adoption level'',
      ln ''- geographic_scope: local/regional/national/international'',
      ln ''- key_capabilities: core business capabilities'',
      ln ''- partnership_interests: types of partnerships they might seek'']
     @ indent"

definition analysis_request :: "string \<Rightarrow> request" where
  "analysis_request prompt =
     \<lparr>model = ''gpt-4o'',
      system_content = ''You are a business analyst expert at understanding company profiles and matching them with opportunities. Respond with JSON only.'',
      user_content = prompt,
      response_format = ''json_object'',
      temperature = 5404319552844595 / 18014398509481984\<rparr>"

text \<open>The body of the \<^verbatim>\<open>try\<close> block of \<^verbatim>\<open>analyze_company_profile\<close>.\<close>

definition analyze_try :: "pyenv \<Rightarrow> completion \<Rightarrow> string \<Rightarrow> pyerr + pyval" where
  "analyze_try env create prompt =
     bind_err (raised (create (analysis_request prompt))) (\<lambda>content.
     case content of
       None \<Rightarrow> Inr (PDict [(''industry_focus'', PStr ''Unknown''),
                            (''business_stage'', PStr ''Unknown'')])
     | Some c \<Rightarrow>
         if c \<noteq> [] then raised (json_loads env c)
         else Inr (PDict [(''industry_focus'', PStr ''Unknown''),
                          (''business_stage'', PStr ''Unknown'')]))"

text \<open>
  \<open>profile_text\<close> and the prompt are built before the \<^verbatim>\<open>try\<close>. The value of
  \<^verbatim>\<open>json.loads\<close> is returned as it is, whatever its type and keys.
\<close>

definition analyze_company_profile :: "pyenv \<Rightarrow> completion \<Rightarrow> pyobject \<Rightarrow> pyerr + pyval" where
  "analyze_company_profile env create profile =
     bind_err (profile_text env profile) (\<lambda>ptext.
     case analyze_try env create (analysis_prompt ptext) of
       Inr analysis \<Rightarrow> Inr analysis
     | Inl e \<Rightarrow>
         bind_err (getattr profile ''industry'') (\<lambda>v_industry.
         Inr (PDict [(''industry_focus'', v_industry),
                     (''business_stage'', PStr ''unknown''),
                     (''error'', PStr (str_exc e))])))"

subsection \<open>The declared profile class\<close>

text \<open>
  \<^verbatim>\<open>analyze_company_profile\<close> and \<^verbatim>\<open>find_matches_for_company\<close> annotate their profile
  parameter with the dataclass \<^verbatim>\<open>BusinessProfile\<close> of
  \<^verbatim>\<open>src/profile/business_profile.py\<close>. An instance has exactly the twenty fields the
  dataclass declares.
\<close>

datatype BusinessSize = MICRO | SMALL | MEDIUM | LARGE

datatype MarketFocus = LOCAL | NATIONAL | INTERNATIONAL | GLOBAL

fun BusinessSize_repr :: "BusinessSize \<Rightarrow> string" where
  "BusinessSize_repr MICRO = ''BusinessSize.MICRO''"
| "BusinessSize_repr SMALL = ''BusinessSize.SMALL''"
| "BusinessSize_repr MEDIUM = ''BusinessSize.MEDIUM''"
| "BusinessSize_repr LARGE = ''BusinessSize.LARGE''"

fun MarketFocus_repr :: "MarketFocus \<Rightarrow> string" where
  "MarketFocus_repr LOCAL = ''MarketFocus.LOCAL''"
| "MarketFocus_repr NATIONAL = ''MarketFocus.NATIONAL''"
| "MarketFocus_repr INTERNATIONAL = ''MarketFocus.INTERNATIONAL''"
| "MarketFocus_repr GLOBAL = ''MarketFocus.GLOBAL''"

record BusinessProfile =
  company_name :: string
  industry :: string
  sub_industry :: string
  business_size :: BusinessSize
  annual_revenue :: string
  location :: string
  primary_products :: "string list"
  target_markets :: "string list"
  market_focus :: MarketFocus
  unique_selling_points :: "string list"
  main_challenges :: "string list"
  growth_goals :: "string list"
  target_revenue_growth :: string
  focus_regions :: "string list"
  competitor_companies :: "string list"
  key_keywords :: "string list"
  preferred_languages :: "string list"
  bp_created_at :: string
  updated_at :: string
  profile_completeness :: pyfloat

definition str_list :: "string list \<Rightarrow> pyval" where
  "str_list ss = PList (map PStr ss)"

definition BusinessProfile_object :: "BusinessProfile \<Rightarrow> pyobject" where
  "BusinessProfile_object p =
     \<lparr>class_name = ''BusinessProfile'',
      attrs =
       [(''company_name'', PStr (company_name p)),
        (''industry'', PStr (industry p)),
        (''sub_industry'', PStr (sub_industry p)),
        (''business_size'', PObj ''BusinessSize'' (BusinessSize_repr (business_size p))),
        (''annual_revenue'', PStr (annual_revenue p)),
        (''location'', PStr (location p)),
        (''primary_products'', str_list (primary_products p)),
        (''target_markets'', str_list (target_markets p)),
        (''market_focus'', PObj ''MarketFocus'' (MarketFocus_repr (market_focus p))),
        (''unique_selling_points'', str_list (unique_selling_points p)),
        (''main_challenges'', str_list (main_challenges p)),
        (''growth_goals'', str_list (growth_goals p)),
        (''target_revenue_growth'', PStr (target_revenue_growth p)),
        (''focus_regions'', str_list (focus_regions p)),
        (''competitor_companies'', str_list (competitor_companies p)),
        (''key_keywords'', str_list (key_keywords p)),
        (''preferred_languages'', str_list (preferred_languages p)),
        (''created_at'', PStr (bp_created_at p)),
        (''updated_at'', PStr (updated_at p)),
        (''profile_completeness'', PFloat (profile_completeness p))]\<rparr>"

section \<open>Match Ranker and the matching run\<close>

text \<open>
  \<^verbatim>\<open>matches.sort(key=lambda x: x.relevance_score, reverse=True)\<close>. The sort of the
  Python library compares keys with \<^verbatim>\<open><\<close> only, is stable, and with \<^verbatim>\<open>reverse=True\<close>
  orders the list as if each comparison were reversed, keeping the original order of
  elements with equal keys. It is embedded as an insertion sort with exactly that
  contract: an element goes behind the elements with a greater key and before those
  with an equal or smaller one that followed it in the input.
\<close>

fun insert_desc :: "Match \<Rightarrow> Match list \<Rightarrow> Match list" where
  "insert_desc m [] = [m]"
| "insert_desc m (x # xs) =
     (if fl_lt (relevance_score m) (relevance_score x) then x # insert_desc m xs
      else m # x # xs)"

fun sort_reverse :: "Match list \<Rightarrow> Match list" where
  "sort_reverse [] = []"
| "sort_reverse (m # ms) = insert_desc m (sort_reverse ms)"

text \<open>
  The \<^verbatim>\<open>for\<close> loop of \<^verbatim>\<open>find_matches_for_company\<close>, with the list \<open>matches\<close> built so
  far. \<open>client k\<close> is the \<open>k\<close>-th call of the API in the run (call 0 is the analysis) and
  \<open>clock k\<close> the clock at that call. \<open>min_score\<close> is a float; an \<^verbatim>\<open>int\<close> given for it
  compares as the float of the same value.
\<close>

fun score_loop ::
  "pyenv \<Rightarrow> (nat \<Rightarrow> completion) \<Rightarrow> (nat \<Rightarrow> datetime) \<Rightarrow> pyval \<Rightarrow> pyobject \<Rightarrow> pyfloat
     \<Rightarrow> nat \<Rightarrow> Opportunity list \<Rightarrow> Match list \<Rightarrow> pyerr + Match list" where
  "score_loop env client clock company_analysis profile min_score k [] matches = Inr matches"
| "score_loop env client clock company_analysis profile min_score k (opportunity # rest) matches =
     (case score_opportunity_relevance env (client k) (clock k) company_analysis opportunity of
        Inl e \<Rightarrow> Inl e
      | Inr match \<Rightarrow>
          (case getattr profile ''company_name'' of
             Inl e \<Rightarrow> Inl e
           | Inr name \<Rightarrow>
               score_loop env client clock company_analysis profile min_score (Suc k) rest
                 (if fl_ge (relevance_score (match\<lparr>company_id := name\<rparr>)) min_score
                  then matches @ [match\<lparr>company_id := name\<rparr>]
                  else matches)))"

definition find_matches_for_company ::
  "pyenv \<Rightarrow> (nat \<Rightarrow> completion) \<Rightarrow> (nat \<Rightarrow> datetime) \<Rightarrow> pyobject \<Rightarrow> Opportunity list \<Rightarrow> pyfloat
     \<Rightarrow> pyerr + Match list" where
  "find_matches_for_company env client clock profile opportunities min_score =
     bind_err (analyze_company_profile env (client 0) profile) (\<lambda>company_analysis.
     bind_err (score_loop env client clock company_analysis profile min_score 1 opportunities [])
       (\<lambda>matches. Inr (sort_reverse matches)))"

text \<open>The default of the parameter \<^verbatim>\<open>min_score\<close>: the float written \<^verbatim>\<open>0.6\<close>.\<close>

definition default_min_score :: pyfloat where
  "default_min_score = Fin (5404319552844595 / 9007199254740992)"

subsection \<open>The components as the specification names them\<close>

text \<open>
  The specification describes the run as two components: the Relevance Scorer, called
  once for each opportunity of the catalog, and the Match Ranker, which takes the list of
  all the Matches of one company with a threshold, keeps the Matches at or above it and
  sorts them. The source has no function for either step; \<open>score_each\<close> and \<open>rank\<close>
  follow the specification, and \<open>find_matches_for_company\<close> is compared with them below.
\<close>

fun score_each ::
  "pyenv \<Rightarrow> (nat \<Rightarrow> completion) \<Rightarrow> (nat \<Rightarrow> datetime) \<Rightarrow> pyval \<Rightarrow> pyval
     \<Rightarrow> nat \<Rightarrow> Opportunity list \<Rightarrow> pyerr + Match list" where
  "score_each env client clock company_analysis name k [] = Inr []"
| "score_each env client clock company_analysis name k (opportunity # rest) =
     (case score_opportunity_relevance env (client k) (clock k) company_analysis opportunity of
        Inl e \<Rightarrow> Inl e
      | Inr match \<Rightarrow>
          (case score_each env client clock company_analysis name (Suc k) rest of
             Inl e \<Rightarrow> Inl e
           | Inr ms \<Rightarrow> Inr (match\<lparr>company_id := name\<rparr> # ms)))"

definition rank :: "Match list \<Rightarrow> pyfloat \<Rightarrow> Match list" where
  "rank M t = sort_reverse (filter (\<lambda>m. fl_ge (relevance_score m) t) M)"

fun sorted_desc :: "Match list \<Rightarrow> bool" where
  "sorted_desc [] = True"
| "sorted_desc [m] = True"
| "sorted_desc (m # n # ms) = (fl_ge (relevance_score m) (relevance_score n) \<and> sorted_desc (n # ms))"




section \<open>Test doubles\<close>

text \<open>
  A deterministic oracle and the built-ins for the concrete runs below. \<open>stub_loads\<close>
  parses the documents the stub oracle answers with, as \<^verbatim>\<open>json.loads\<close> does, and raises
  on any other text; the floats \<^verbatim>\<open>0.8\<close> and \<^verbatim>\<open>0.9\<close> are the doubles nearest to these
  decimals.
\<close>

definition stub_loads :: "string \<Rightarrow> string + pyval" where
  \<open>stub_loads s =
     (if s = ''{"relevance_score": 1.5, "reasoning": "perfect fit"}'' then
        Inr (PDict [(''relevance_score'', PFloat (Fin (3 / 2))), (''reasoning'', PStr ''perfect fit'')])
      else if s = ''{"relevance_score": -3}'' then
        Inr (PDict [(''relevance_score'', PInt (- 3))])
      else if s = ''{"relevance_score": 0.8, "reasoning": "regional supplier"}'' then
        Inr (PDict [(''relevance_score'', PFloat (Fin (3602879701896397 / 4503599627370496))),
                    (''reasoning'', PStr ''regional supplier'')])
      else if s = ''{"relevance_score": 0.9, "reasoning": "core market"}'' then
        Inr (PDict [(''relevance_score'', PFloat (Fin (8106479329266893 / 9007199254740992))),
                    (''reasoning'', PStr ''core market'')])
      else if s = ''{"relevance_score": 0.8, "reasoning": "trade fair"}'' then
        Inr (PDict [(''relevance_score'', PFloat (Fin (3602879701896397 / 4503599627370496))),
                    (''reasoning'', PStr ''trade fair'')])
      else if s = ''{"industry_focus": "software", "business_stage": "growth"}'' then
        Inr (PDict [(''industry_focus'', PStr ''software''), (''business_stage'', PStr ''growth'')])
      else if s = ''["software"]'' then
        Inr (PList [PStr ''software''])
      else Inl ''Expecting value: line 1 column 1 (char 0)'')\<close>

definition stub_env :: pyenv where
  "stub_env = \<lparr>str_of = type_name, json_loads = stub_loads\<rparr>"

definition stub_opportunity :: "string \<Rightarrow> string \<Rightarrow> Opportunity" where
  "stub_opportunity i body =
     \<lparr>opp_id = i, title = ''Title '' @ i, description = ''About '' @ i, content = body,
      source = ''feed'', source_url = ''https://example.org/'' @ i, opportunity_type = ''news'',
      tags = [''export'', ''software''], published_at = 0, metadata = []\<rparr>"

text \<open>An object that has the eight attributes the analyzer reads.\<close>

definition stub_profile :: pyobject where
  "stub_profile =
     \<lparr>class_name = ''Company'',
      attrs =
       [(''company_name'', PStr ''Acme''),
        (''industry'', PStr ''technology software''),
        (''business_type'', PStr ''B2B''),
        (''company_size'', PStr ''11-50 employees''),
        (''description'', PStr ''''),
        (''services'', PList [PStr ''consulting'', PStr ''hosting'']),
        (''target_markets'', PList []),
        (''key_challenges'', PList [PStr ''hiring''])]\<rparr>"

text \<open>
  The calls of the stub oracle: the analysis (call 0) answers with a JSON object; the
  scoring of the first opportunity raises, the second scores 0.8, the third 0.9, the
  fourth 0.8 again. The later calls answer a score above 1, a score below 0, a JSON
  document that is not an object, text that is not JSON, and no content; call 10 answers
  with the empty string.
\<close>

definition stub_client :: "nat \<Rightarrow> completion" where
  \<open>stub_client k req =
     (if k = 0 then Inr (Some ''{"industry_focus": "software", "business_stage": "growth"}'')
      else if k = 1 then Inl ''Request timed out.''
      else if k = 2 then Inr (Some ''{"relevance_score": 0.8, "reasoning": "regional supplier"}'')
      else if k = 3 then Inr (Some ''{"relevance_score": 0.9, "reasoning": "core market"}'')
      else if k = 4 then Inr (Some ''{"relevance_score": 0.8, "reasoning": "trade fair"}'')
      else if k = 5 then Inr (Some ''{"relevance_score": 1.5, "reasoning": "perfect fit"}'')
      else if k = 6 then Inr (Some ''{"relevance_score": -3}'')
      else if k = 7 then Inr (Some ''["software"]'')
      else if k = 8 then Inr (Some ''I cannot answer that.'')
      else if k = 10 then Inr (Some [])
      else Inr None)\<close>

definition stub_clock :: "nat \<Rightarrow> datetime" where
  "stub_clock k = 1000 + k"

text \<open>
  A catalog of four opportunities for the stub oracle, and the three Matches that a run
  over it with the default threshold is to return: the 0.9 first, then the two 0.8 in the
  order of the catalog.
\<close>

definition stub_catalog :: "Opportunity list" where
  "stub_catalog =
     [stub_opportunity ''X'' ''x'', stub_opportunity ''Y'' ''y'', stub_opportunity ''Z'' ''z'',
      stub_opportunity ''K'' ''k'']"

definition stub_match :: "string \<Rightarrow> pyfloat \<Rightarrow> string \<Rightarrow> datetime \<Rightarrow> Match" where
  "stub_match i score why now =
     \<lparr>company_id = PStr ''Acme'', opportunity_id = i, relevance_score = score,
      reasoning = PStr why, match_status = ''pending'', created_at = Some now\<rparr>"

definition stub_ranked :: "Match list" where
  "stub_ranked =
     [stub_match ''Z'' (Fin (8106479329266893 / 9007199254740992)) ''core market'' 1003,
      stub_match ''Y'' (Fin (3602879701896397 / 4503599627370496)) ''regional supplier'' 1002,
      stub_match ''K'' (Fin (3602879701896397 / 4503599627370496)) ''trade fair'' 1004]"

definition stub_business_profile :: BusinessProfile where
  "stub_business_profile =
     \<lparr>company_name = ''Acme'', industry = ''technology software'', sub_industry = '''',
      business_size = SMALL, annual_revenue = '''', location = '''',
      primary_products = [], target_markets = [], market_focus = LOCAL,
      unique_selling_points = [], main_challenges = [], growth_goals = [],
      target_revenue_growth = '''', focus_regions = [], competitor_companies = [],
      key_keywords = [], preferred_languages = [''English''],
      bp_created_at = ''2025-01-01T00:00:00'', updated_at = ''2025-01-01T00:00:00'',
      profile_completeness = Fin 0\<rparr>"

section \<open>Properties of the scorer\<close>

lemma clamp_score_range:
  "clamp_score raw = Inr s \<Longrightarrow> \<exists>r. s = Fin r \<and> 0 \<le> r \<and> r \<le> 1"
  by (cases "num_of raw"; cases "the (num_of raw)")
     (auto simp: clamp_score_def py_min_def py_max_def split: if_splits)

lemma scoring_prompt_head_dict:
  "\<exists>h. scoring_prompt_head env (PDict d) opp = Inr h"
  by (simp add: scoring_prompt_head_def dict_get_def bind_err_def)

lemma scoring_prompt_dict:
  "\<exists>p. scoring_prompt env (PDict d) opp = Inr p"
  using scoring_prompt_head_dict[of env d opp]
  by (auto simp: scoring_prompt_def bind_err_def)

lemma score_try_range:
  "score_try env create now p opp = Inr m \<Longrightarrow> \<exists>r. relevance_score m = Fin r \<and> 0 \<le> r \<and> r \<le> 1"
  unfolding score_try_def bind_err_def
  by (auto split: sum.splits dest: clamp_score_range)

lemma score_try_ids:
  "score_try env create now p opp = Inr m \<Longrightarrow>
     opportunity_id m = opp_id opp \<and> company_id m = PStr ''placeholder''"
  unfolding score_try_def bind_err_def
  by (auto split: sum.splits)

lemma score_dict_total:
  "\<exists>m. score_opportunity_relevance env create now (PDict d) opp = Inr m"
  using scoring_prompt_dict[of env d opp]
  by (auto simp: score_opportunity_relevance_def bind_err_def)

lemma score_range:
  "score_opportunity_relevance env create now a opp = Inr m \<Longrightarrow>
     \<exists>r. relevance_score m = Fin r \<and> 0 \<le> r \<and> r \<le> 1"
  unfolding score_opportunity_relevance_def bind_err_def
  by (auto split: sum.splits dest: score_try_range)

lemma score_ids:
  "score_opportunity_relevance env create now a opp = Inr m \<Longrightarrow>
     opportunity_id m = opp_id opp \<and> company_id m = PStr ''placeholder''"
  unfolding score_opportunity_relevance_def bind_err_def
  by (auto split: sum.splits dest: score_try_ids)


section \<open>Properties of the sort and of the ranker\<close>

lemma fl_lt_irrefl: "\<not> fl_lt a a"
  by (cases a) auto

lemma fl_ge_not_lt: "fl_ge a b \<Longrightarrow> \<not> fl_lt a b"
  by (cases a; cases b) auto

lemma fl_ge_trans: "fl_ge a b \<Longrightarrow> fl_ge b c \<Longrightarrow> fl_ge a c"
  by (cases a; cases b; cases c) auto

lemma fl_ge_total: "a \<noteq> NaN \<Longrightarrow> b \<noteq> NaN \<Longrightarrow> \<not> fl_lt a b \<Longrightarrow> fl_ge a b"
  by (cases a; cases b) auto

lemma fl_lt_ge: "fl_lt a b \<Longrightarrow> fl_ge b a"
  by (cases a; cases b) auto

lemma fl_ge_not_NaN: "fl_ge a b \<Longrightarrow> a \<noteq> NaN"
  by (cases a; cases b) auto

lemma set_insert_desc: "set (insert_desc m xs) = insert m (set xs)"
  by (induction xs) auto

lemma set_sort_reverse: "set (sort_reverse xs) = set xs"
  by (induction xs) (auto simp: set_insert_desc)

lemma length_insert_desc: "length (insert_desc m xs) = Suc (length xs)"
  by (induction xs) auto

lemma length_sort_reverse: "length (sort_reverse xs) = length xs"
  by (induction xs) (auto simp: length_insert_desc)

lemma sorted_desc_Cons:
  "sorted_desc (x # xs) = ((case xs of [] \<Rightarrow> True | y # _ \<Rightarrow> fl_ge (relevance_score x) (relevance_score y)) \<and> sorted_desc xs)"
  by (cases xs) auto

lemma sorted_desc_insert:
  "sorted_desc xs \<Longrightarrow> relevance_score m \<noteq> NaN \<Longrightarrow> \<forall>x\<in>set xs. relevance_score x \<noteq> NaN
     \<Longrightarrow> sorted_desc (insert_desc m xs)"
proof (induction xs)
  case Nil
  then show ?case by simp
next
  case (Cons x xs)
  show ?case
  proof (cases "fl_lt (relevance_score m) (relevance_score x)")
    case True
    have IH: "sorted_desc (insert_desc m xs)"
      using Cons by (simp add: sorted_desc_Cons)
    show ?thesis
    proof (cases xs)
      case Nil
      then show ?thesis using True by (simp add: fl_lt_ge)
    next
      case (Cons y ys)
      then show ?thesis
        using True IH Cons.prems(1) by (auto simp: fl_lt_ge)
    qed
  next
    case False
    then show ?thesis
      using Cons.prems by (simp add: fl_ge_total)
  qed
qed

lemma sorted_desc_sort_reverse:
  "\<forall>x\<in>set xs. relevance_score x \<noteq> NaN \<Longrightarrow> sorted_desc (sort_reverse xs)"
  by (induction xs) (auto simp: sorted_desc_insert set_sort_reverse)

lemma sort_reverse_sorted: "sorted_desc xs \<Longrightarrow> sort_reverse xs = xs"
  by (induction xs rule: sorted_desc.induct) (auto dest: fl_ge_not_lt)

lemma filter_insert_desc:
  "filter (\<lambda>x. relevance_score x = s) (insert_desc m xs) =
     (if relevance_score m = s then m # filter (\<lambda>x. relevance_score x = s) xs
      else filter (\<lambda>x. relevance_score x = s) xs)"
  by (induction xs) (auto simp: fl_lt_irrefl)

lemma sort_reverse_stable:
  "filter (\<lambda>x. relevance_score x = s) (sort_reverse xs) = filter (\<lambda>x. relevance_score x = s) xs"
  by (induction xs) (auto simp: filter_insert_desc)

lemma sorted_desc_nth:
  "sorted_desc xs \<Longrightarrow> i < j \<Longrightarrow> j < length xs \<Longrightarrow>
     fl_ge (relevance_score (xs ! i)) (relevance_score (xs ! j))"
proof (induction xs arbitrary: i j rule: sorted_desc.induct)
  case 1
  then show ?case by simp
next
  case (2 m)
  then show ?case by simp
next
  case (3 m n ms)
  obtain j' where j: "j = Suc j'" using "3.prems"(2) by (cases j) auto
  have s: "sorted_desc (n # ms)" and mn: "fl_ge (relevance_score m) (relevance_score n)"
    using "3.prems"(1) by auto
  show ?case
  proof (cases i)
    case 0
    show ?thesis
    proof (cases j')
      case 0
      then show ?thesis using \<open>i = 0\<close> j mn by simp
    next
      case (Suc k)
      have "fl_ge (relevance_score ((n # ms) ! 0)) (relevance_score ((n # ms) ! j'))"
        using "3.IH"[OF s, of 0 j'] Suc "3.prems"(3) j by simp
      then show ?thesis using \<open>i = 0\<close> j mn by (auto intro: fl_ge_trans)
    qed
  next
    case (Suc i')
    then show ?thesis using "3.IH"[OF s, of i' j'] "3.prems" j by simp
  qed
qed

lemma set_rank: "set (rank M t) = {m \<in> set M. fl_ge (relevance_score m) t}"
  by (auto simp: rank_def set_sort_reverse)

lemma sorted_desc_rank: "sorted_desc (rank M t)"
  unfolding rank_def
  by (rule sorted_desc_sort_reverse) (auto dest: fl_ge_not_NaN)

lemma filter_id: "\<forall>x\<in>set xs. P x \<Longrightarrow> filter P xs = xs"
  by (induction xs) auto

lemma rank_idem: "rank (rank M t) t = rank M t"
proof -
  have "filter (\<lambda>m. fl_ge (relevance_score m) t) (rank M t) = rank M t"
    by (rule filter_id) (simp add: set_rank)
  then have "rank (rank M t) t = sort_reverse (rank M t)"
    by (simp add: rank_def)
  also have "\<dots> = rank M t"
    by (rule sort_reverse_sorted) (rule sorted_desc_rank)
  finally show ?thesis .
qed

section \<open>The run against its components\<close>

lemma score_loop_score_each:
  "getattr profile ''company_name'' = Inr name \<Longrightarrow>
   score_loop env client clock a profile t k opps acc =
     (case score_each env client clock a name k opps of
        Inl e \<Rightarrow> Inl e
      | Inr M \<Rightarrow> Inr (acc @ filter (\<lambda>m. fl_ge (relevance_score m) t) M))"
  by (induction opps arbitrary: k acc) (auto split: sum.splits)

lemma score_each_nth:
  "score_each env client clock a name k opps = Inr M \<Longrightarrow>
     length M = length opps \<and>
     (\<forall>i<length opps. \<exists>m. score_opportunity_relevance env (client (k + i)) (clock (k + i)) a (opps ! i) = Inr m
          \<and> M ! i = m\<lparr>company_id := name\<rparr>)"
proof (induction opps arbitrary: k M)
  case Nil
  then show ?case by simp
next
  case (Cons opp rest)
  from Cons.prems obtain m ms where
    m: "score_opportunity_relevance env (client k) (clock k) a opp = Inr m" and
    ms: "score_each env client clock a name (Suc k) rest = Inr ms" and
    M: "M = m\<lparr>company_id := name\<rparr> # ms"
    by (auto split: sum.splits)
  have IH: "length ms = length rest \<and>
     (\<forall>i<length rest. \<exists>m. score_opportunity_relevance env (client (Suc k + i)) (clock (Suc k + i)) a (rest ! i) = Inr m
          \<and> ms ! i = m\<lparr>company_id := name\<rparr>)"
    using Cons.IH[OF ms] .
  show ?case
  proof (intro conjI allI impI)
    show "length M = length (opp # rest)" using IH M by simp
  next
    fix i assume i: "i < length (opp # rest)"
    show "\<exists>m. score_opportunity_relevance env (client (k + i)) (clock (k + i)) a ((opp # rest) ! i) = Inr m
          \<and> M ! i = m\<lparr>company_id := name\<rparr>"
    proof (cases i)
      case 0
      then show ?thesis using m M by simp
    next
      case (Suc j)
      then have "j < length rest" using i by simp
      then show ?thesis using IH Suc M by simp
    qed
  qed
qed

lemma score_each_dict_total:
  "\<exists>M. score_each env client clock (PDict d) name k opps = Inr M"
proof (induction opps arbitrary: k)
  case Nil
  then show ?case by simp
next
  case (Cons opp rest)
  obtain m where "score_opportunity_relevance env (client k) (clock k) (PDict d) opp = Inr m"
    using score_dict_total by blast
  moreover obtain ms where "score_each env client clock (PDict d) name (Suc k) rest = Inr ms"
    using Cons.IH by blast
  ultimately show ?case by simp
qed

lemma profile_text_company_name:
  "profile_text env profile = Inr ptext \<Longrightarrow> \<exists>name. getattr profile ''company_name'' = Inr name"
  unfolding profile_text_def bind_err_def by (auto split: sum.splits)


lemma analyze_profile_text:
  "analyze_company_profile env create profile = Inr a \<Longrightarrow> \<exists>ptext. profile_text env profile = Inr ptext"
  unfolding analyze_company_profile_def bind_err_def by (auto split: sum.splits)

lemma analyze_company_name:
  "analyze_company_profile env create profile = Inr a \<Longrightarrow> \<exists>name. getattr profile ''company_name'' = Inr name"
  by (blast dest: analyze_profile_text profile_text_company_name)

lemma find_matches_refines:
  assumes "find_matches_for_company env client clock profile opps t = Inr out"
  shows "\<exists>a name M. analyze_company_profile env (client 0) profile = Inr a
           \<and> getattr profile ''company_name'' = Inr name
           \<and> score_each env client clock a name 1 opps = Inr M
           \<and> out = rank M t"
proof -
  from assms obtain a matches where
    a: "analyze_company_profile env (client 0) profile = Inr a" and
    l: "score_loop env client clock a profile t 1 opps [] = Inr matches" and
    out: "out = sort_reverse matches"
    by (auto simp: find_matches_for_company_def bind_err_def split: sum.splits)
  obtain name where name: "getattr profile ''company_name'' = Inr name"
    using analyze_company_name[OF a] by blast
  from l obtain M where
    M: "score_each env client clock a name 1 opps = Inr M" and
    matches: "matches = filter (\<lambda>m. fl_ge (relevance_score m) t) M"
    by (auto simp: score_loop_score_each[OF name] split: sum.splits)
  show ?thesis using a name M matches out by (auto simp: rank_def)
qed

lemma find_matches_dict:
  assumes a: "analyze_company_profile env (client 0) profile = Inr (PDict d)"
  shows "\<exists>name M. getattr profile ''company_name'' = Inr name
           \<and> score_each env client clock (PDict d) name 1 opps = Inr M
           \<and> find_matches_for_company env client clock profile opps t = Inr (rank M t)"
proof -
  obtain name where name: "getattr profile ''company_name'' = Inr name"
    using analyze_company_name[OF a] by blast
  obtain M where M: "score_each env client clock (PDict d) name 1 opps = Inr M"
    using score_each_dict_total by blast
  have "find_matches_for_company env client clock profile opps t = Inr (rank M t)"
    using M by (simp add: find_matches_for_company_def bind_err_def a score_loop_score_each[OF name] rank_def)
  then show ?thesis using name M by blast
qed

section \<open>The claims\<close>

subsection \<open>What the scorer does with the oracle's answer\<close>

lemma oracle_reply_dict:
  "\<exists>p. scoring_prompt env (PDict d) opp = Inr p \<and> oracle_reply env create (PDict d) opp = raised (create (scoring_request p))"
  using scoring_prompt_dict[of env d opp] by (auto simp: oracle_reply_def bind_err_def)

lemma oracle_reply_const:
  "\<forall>req. create req = r \<Longrightarrow> oracle_reply env create (PDict d) opp = raised r"
  using oracle_reply_dict[of env d opp create] by auto

lemma score_by_reply:
  "score_opportunity_relevance env create now (PDict d) opp =
     Inr (case bind_err (oracle_reply env create (PDict d) opp) (\<lambda>content.
              bind_err (case content of
                 None \<Rightarrow> Inr (PDict [(''relevance_score'', PFloat (Fin 0)),
                                      (''reasoning'', PStr ''No analysis available'')])
               | Some c \<Rightarrow>
                   if c \<noteq> [] then raised (json_loads env c)
                   else Inr (PDict [(''relevance_score'', PFloat (Fin 0)),
                                    (''reasoning'', PStr ''No analysis available'')])) (\<lambda>scoring.
              bind_err (dict_get scoring ''relevance_score'' (PFloat (Fin 0))) (\<lambda>raw_score.
              bind_err (clamp_score raw_score) (\<lambda>score.
              bind_err (dict_get scoring ''reasoning'' (PStr ''AI analysis completed'')) (\<lambda>reason.
              Inr \<lparr>company_id = PStr ''placeholder'',
                   opportunity_id = opp_id opp,
                   relevance_score = score,
                   reasoning = reason,
                   match_status = ''pending'',
                   created_at = Some now\<rparr>))))) of
            Inr match \<Rightarrow> match
          | Inl e \<Rightarrow>
              \<lparr>company_id = PStr ''placeholder'',
               opportunity_id = opp_id opp,
               relevance_score = Fin 0,
               reasoning = PStr (''Analysis unavailable: '' @ str_exc e),
               match_status = ''pending'',
               created_at = Some now\<rparr>)"
proof -
  obtain p where p: "scoring_prompt env (PDict d) opp = Inr p"
    using scoring_prompt_dict by blast
  show ?thesis
    by (simp add: score_opportunity_relevance_def oracle_reply_def score_try_def p bind_err_def)
qed

text \<open>
  Claim C1. For every oracle response, the \<^verbatim>\<open>Match\<close> that \<^verbatim>\<open>score_opportunity_relevance\<close>
  returns has a \<open>relevance_score\<close> that is a finite float between 0.0 and 1.0: whenever the
  scorer returns, and it returns on every characterization that is a \<^verbatim>\<open>dict\<close>. When the
  oracle's JSON object holds a number, the score is \<^verbatim>\<open>max(0.0, min(1.0, raw))\<close> of it; a
  missing score gives 0.0; 1.5 is clamped to 1.0 and -3 to 0.0.
\<close>

theorem relevance_score_clamped:
  "(\<forall>a m. score_opportunity_relevance env create now a opp = Inr m \<longrightarrow>
       (\<exists>r. relevance_score m = Fin r \<and> 0 \<le> r \<and> r \<le> 1))
   \<and> (\<exists>m r. score_opportunity_relevance env create now (PDict d) opp = Inr m
          \<and> relevance_score m = Fin r \<and> 0 \<le> r \<and> r \<le> 1)
   \<and> (\<forall>c s x. oracle_reply env create (PDict d) opp = Inr (Some c) \<and> c \<noteq> []
          \<and> json_loads env c = Inr (PDict s)
          \<and> num_of (case map_of s ''relevance_score'' of None \<Rightarrow> PFloat (Fin 0) | Some v \<Rightarrow> v) = Some x
        \<longrightarrow> (\<exists>m. score_opportunity_relevance env create now (PDict d) opp = Inr m
               \<and> relevance_score m = py_max (Fin 0) (py_min (Fin 1) x)))
   \<and> (\<forall>c s. oracle_reply env create (PDict d) opp = Inr (Some c) \<and> c \<noteq> []
          \<and> json_loads env c = Inr (PDict s) \<and> map_of s ''relevance_score'' = None
        \<longrightarrow> (\<exists>m. score_opportunity_relevance env create now (PDict d) opp = Inr m
               \<and> relevance_score m = Fin 0))
   \<and> py_max (Fin 0) (py_min (Fin 1) (Fin (3 / 2))) = Fin 1
   \<and> py_max (Fin 0) (py_min (Fin 1) (Fin (- 3))) = Fin 0"
proof (intro conjI allI impI)
  fix a m assume "score_opportunity_relevance env create now a opp = Inr m"
  then show "\<exists>r. relevance_score m = Fin r \<and> 0 \<le> r \<and> r \<le> 1"
    by (rule score_range)
next
  obtain m where m: "score_opportunity_relevance env create now (PDict d) opp = Inr m"
    using score_dict_total by blast
  then show "\<exists>m r. score_opportunity_relevance env create now (PDict d) opp = Inr m
          \<and> relevance_score m = Fin r \<and> 0 \<le> r \<and> r \<le> 1"
    using score_range[OF m] by blast
next
  fix c s x
  assume "oracle_reply env create (PDict d) opp = Inr (Some c) \<and> c \<noteq> []
          \<and> json_loads env c = Inr (PDict s)
          \<and> num_of (case map_of s ''relevance_score'' of None \<Rightarrow> PFloat (Fin 0) | Some v \<Rightarrow> v) = Some x"
  then show "\<exists>m. score_opportunity_relevance env create now (PDict d) opp = Inr m
               \<and> relevance_score m = py_max (Fin 0) (py_min (Fin 1) x)"
    by (simp add: score_by_reply bind_err_def raised_def dict_get_def clamp_score_def)
next
  fix c s
  assume "oracle_reply env create (PDict d) opp = Inr (Some c) \<and> c \<noteq> []
          \<and> json_loads env c = Inr (PDict s) \<and> map_of s ''relevance_score'' = None"
  then show "\<exists>m. score_opportunity_relevance env create now (PDict d) opp = Inr m
               \<and> relevance_score m = Fin 0"
    by (simp add: score_by_reply bind_err_def raised_def dict_get_def clamp_score_def py_min_def py_max_def)
next
  show "py_max (Fin 0) (py_min (Fin 1) (Fin (3 / 2))) = Fin 1"
    by (simp add: py_min_def py_max_def)
next
  show "py_max (Fin 0) (py_min (Fin 1) (Fin (- 3))) = Fin 0"
    by (simp add: py_min_def py_max_def)
qed

lemma json_loads_stub_env: "json_loads stub_env = stub_loads"
  by (simp add: stub_env_def)

lemma stub_reply_5:
  "oracle_reply stub_env (stub_client 5) (PDict []) (stub_opportunity ''A'' ''body'')
     = Inr (Some ''{\"relevance_score\": 1.5, \"reasoning\": \"perfect fit\"}'')"
  by (rule trans[OF oracle_reply_const[where r = "stub_client 5 undefined"]])
     (simp_all add: stub_client_def raised_def)

theorem relevance_score_clamped_witness:
  "\<exists>m. score_opportunity_relevance stub_env (stub_client 5) 1005 (PDict [])
          (stub_opportunity ''A'' ''body'') = Inr m
       \<and> relevance_score m = Fin 1"
proof -
  let ?c = "''{\"relevance_score\": 1.5, \"reasoning\": \"perfect fit\"}''"
  let ?s = "[(''relevance_score'', PFloat (Fin (3 / 2))), (''reasoning'', PStr ''perfect fit'')]"
  have h: "oracle_reply stub_env (stub_client 5) (PDict []) (stub_opportunity ''A'' ''body'') = Inr (Some ?c)
        \<and> ?c \<noteq> [] \<and> json_loads stub_env ?c = Inr (PDict ?s)
        \<and> num_of (case map_of ?s ''relevance_score'' of None \<Rightarrow> PFloat (Fin 0) | Some v \<Rightarrow> v) = Some (Fin (3 / 2))"
    using stub_reply_5 by (simp add: stub_loads_def json_loads_stub_env)
  have "\<exists>m. score_opportunity_relevance stub_env (stub_client 5) 1005 (PDict [])
          (stub_opportunity ''A'' ''body'') = Inr m
       \<and> relevance_score m = py_max (Fin 0) (py_min (Fin 1) (Fin (3 / 2)))"
    using relevance_score_clamped[of stub_env "stub_client 5" 1005 "stub_opportunity ''A'' ''body''" "[]"] h
    by blast
  then show ?thesis by (simp add: py_min_def py_max_def)
qed

lemma stub_reply_1:
  "oracle_reply stub_env (stub_client 1) (PDict d) opp = Inl (Raised ''Request timed out.'')"
  by (rule trans[OF oracle_reply_const[where r = "stub_client 1 undefined"]])
     (simp_all add: stub_client_def raised_def)

lemma stub_reply_10:
  "oracle_reply stub_env (stub_client 10) (PDict d) opp = Inr (Some [])"
  by (rule trans[OF oracle_reply_const[where r = "stub_client 10 undefined"]])
     (simp_all add: stub_client_def raised_def)

lemma stub_reply_9:
  "oracle_reply stub_env (stub_client 9) (PDict d) opp = Inr None"
  by (rule trans[OF oracle_reply_const[where r = "stub_client 9 undefined"]])
     (simp_all add: stub_client_def raised_def)

text \<open>
  The oracle answers with the empty string, which \<^verbatim>\<open>json.loads\<close> cannot parse, or with no
  content. The scorer does not call \<^verbatim>\<open>json.loads\<close> on either: it returns a zero-score
  \<^verbatim>\<open>Match\<close> whose reasoning is \<^verbatim>\<open>No analysis available\<close>, which does not begin with
  \<^verbatim>\<open>Analysis unavailable: \<close>.
\<close>

theorem empty_output_reasoning:
  "oracle_reply stub_env (stub_client 10) (PDict []) (stub_opportunity ''X'' ''body'') = Inr (Some [])
   \<and> json_loads stub_env [] = Inl ''Expecting value: line 1 column 1 (char 0)''
   \<and> score_opportunity_relevance stub_env (stub_client 10) 1010 (PDict [])
        (stub_opportunity ''X'' ''body'') =
      Inr \<lparr>company_id = PStr ''placeholder'', opportunity_id = ''X'',
           relevance_score = Fin 0,
           reasoning = PStr ''No analysis available'',
           match_status = ''pending'', created_at = Some 1010\<rparr>
   \<and> oracle_reply stub_env (stub_client 9) (PDict []) (stub_opportunity ''X'' ''body'') = Inr None
   \<and> score_opportunity_relevance stub_env (stub_client 9) 1009 (PDict [])
        (stub_opportunity ''X'' ''body'') =
      Inr \<lparr>company_id = PStr ''placeholder'', opportunity_id = ''X'',
           relevance_score = Fin 0,
           reasoning = PStr ''No analysis available'',
           match_status = ''pending'', created_at = Some 1009\<rparr>
   \<and> take (length ''Analysis unavailable: '') ''No analysis available'' \<noteq> ''Analysis unavailable: ''"
proof (intro conjI)
  show "oracle_reply stub_env (stub_client 10) (PDict []) (stub_opportunity ''X'' ''body'') = Inr (Some [])"
    by (rule stub_reply_10)
next
  show "json_loads stub_env [] = Inl ''Expecting value: line 1 column 1 (char 0)''"
    by (simp add: json_loads_stub_env stub_loads_def)
next
  show "score_opportunity_relevance stub_env (stub_client 10) 1010 (PDict [])
        (stub_opportunity ''X'' ''body'') =
      Inr \<lparr>company_id = PStr ''placeholder'', opportunity_id = ''X'',
           relevance_score = Fin 0,
           reasoning = PStr ''No analysis available'',
           match_status = ''pending'', created_at = Some 1010\<rparr>"
    using stub_reply_10[of "[]" "stub_opportunity ''X'' ''body''"]
    by (simp add: score_by_reply bind_err_def dict_get_def clamp_score_def py_min_def py_max_def
        stub_opportunity_def)
next
  show "oracle_reply stub_env (stub_client 9) (PDict []) (stub_opportunity ''X'' ''body'') = Inr None"
    by (rule stub_reply_9)
next
  show "score_opportunity_relevance stub_env (stub_client 9) 1009 (PDict [])
        (stub_opportunity ''X'' ''body'') =
      Inr \<lparr>company_id = PStr ''placeholder'', opportunity_id = ''X'',
           relevance_score = Fin 0,
           reasoning = PStr ''No analysis available'',
           match_status = ''pending'', created_at = Some 1009\<rparr>"
    using stub_reply_9[of "[]" "stub_opportunity ''X'' ''body''"]
    by (simp add: score_by_reply bind_err_def dict_get_def clamp_score_def py_min_def py_max_def
        stub_opportunity_def)
next
  show "take (length ''Analysis unavailable: '') ''No analysis available'' \<noteq> ''Analysis unavailable: ''"
    by simp
qed

text \<open>
  Claim C4, as the code has it. On every characterization that is a \<^verbatim>\<open>dict\<close> and every
  opportunity the scorer returns a \<^verbatim>\<open>Match\<close> and raises nothing. When the call of the
  scoring oracle raises, when \<^verbatim>\<open>json.loads\<close> raises on the oracle's text, when the text
  parses to a value that is not a JSON object, or when the score of the JSON object is not
  a number, the \<^verbatim>\<open>Match\<close> has \<open>relevance_score\<close> 0.0 and the reasoning
  \<^verbatim>\<open>Analysis unavailable: \<close> followed by the message of the exception. When the oracle
  answers with no content or with the empty string, nothing is raised and nothing
  parsed: the \<^verbatim>\<open>Match\<close> has \<open>relevance_score\<close> 0.0 and the reasoning
  \<^verbatim>\<open>No analysis available\<close>.
\<close>

theorem scoring_failure_gives_zero_match:
  "(\<exists>m. score_opportunity_relevance env create now (PDict d) opp = Inr m)
   \<and> (\<forall>msg. oracle_reply env create (PDict d) opp = Inl (Raised msg) \<longrightarrow>
         score_opportunity_relevance env create now (PDict d) opp =
           Inr \<lparr>company_id = PStr ''placeholder'', opportunity_id = opp_id opp,
                relevance_score = Fin 0,
                reasoning = PStr (''Analysis unavailable: '' @ msg),
                match_status = ''pending'', created_at = Some now\<rparr>)
   \<and> (\<forall>c msg. oracle_reply env create (PDict d) opp = Inr (Some c) \<and> c \<noteq> []
          \<and> json_loads env c = Inl msg \<longrightarrow>
         score_opportunity_relevance env create now (PDict d) opp =
           Inr \<lparr>company_id = PStr ''placeholder'', opportunity_id = opp_id opp,
                relevance_score = Fin 0,
                reasoning = PStr (''Analysis unavailable: '' @ msg),
                match_status = ''pending'', created_at = Some now\<rparr>)
   \<and> (\<forall>c v. oracle_reply env create (PDict d) opp = Inr (Some c) \<and> c \<noteq> []
          \<and> json_loads env c = Inr v \<and> (\<forall>kvs. v \<noteq> PDict kvs) \<longrightarrow>
         score_opportunity_relevance env create now (PDict d) opp =
           Inr \<lparr>company_id = PStr ''placeholder'', opportunity_id = opp_id opp,
                relevance_score = Fin 0,
                reasoning = PStr (''Analysis unavailable: ''
                              @ str_exc (AttributeError (type_name v) ''get'')),
                match_status = ''pending'', created_at = Some now\<rparr>)
   \<and> (\<forall>c s raw e. oracle_reply env create (PDict d) opp = Inr (Some c) \<and> c \<noteq> []
          \<and> json_loads env c = Inr (PDict s) \<and> map_of s ''relevance_score'' = Some raw
          \<and> clamp_score raw = Inl e \<longrightarrow>
         score_opportunity_relevance env create now (PDict d) opp =
           Inr \<lparr>company_id = PStr ''placeholder'', opportunity_id = opp_id opp,
                relevance_score = Fin 0,
                reasoning = PStr (''Analysis unavailable: '' @ str_exc e),
                match_status = ''pending'', created_at = Some now\<rparr>)
   \<and> (oracle_reply env create (PDict d) opp = Inr None
        \<or> oracle_reply env create (PDict d) opp = Inr (Some []) \<longrightarrow>
         score_opportunity_relevance env create now (PDict d) opp =
           Inr \<lparr>company_id = PStr ''placeholder'', opportunity_id = opp_id opp,
                relevance_score = Fin 0,
                reasoning = PStr ''No analysis available'',
                match_status = ''pending'', created_at = Some now\<rparr>)"
proof (intro conjI allI impI)
  show "\<exists>m. score_opportunity_relevance env create now (PDict d) opp = Inr m"
    by (rule score_dict_total)
next
  fix msg assume "oracle_reply env create (PDict d) opp = Inl (Raised msg)"
  then show "score_opportunity_relevance env create now (PDict d) opp =
           Inr \<lparr>company_id = PStr ''placeholder'', opportunity_id = opp_id opp,
                relevance_score = Fin 0,
                reasoning = PStr (''Analysis unavailable: '' @ msg),
                match_status = ''pending'', created_at = Some now\<rparr>"
    by (simp add: score_by_reply bind_err_def)
next
  fix c msg
  assume "oracle_reply env create (PDict d) opp = Inr (Some c) \<and> c \<noteq> []
          \<and> json_loads env c = Inl msg"
  then show "score_opportunity_relevance env create now (PDict d) opp =
           Inr \<lparr>company_id = PStr ''placeholder'', opportunity_id = opp_id opp,
                relevance_score = Fin 0,
                reasoning = PStr (''Analysis unavailable: '' @ msg),
                match_status = ''pending'', created_at = Some now\<rparr>"
    by (simp add: score_by_reply bind_err_def raised_def)
next
  fix c v
  assume h: "oracle_reply env create (PDict d) opp = Inr (Some c) \<and> c \<noteq> []
          \<and> json_loads env c = Inr v \<and> (\<forall>kvs. v \<noteq> PDict kvs)"
  then have "dict_get v ''relevance_score'' (PFloat (Fin 0)) = Inl (AttributeError (type_name v) ''get'')"
    by (cases v) (auto simp: dict_get_def)
  then show "score_opportunity_relevance env create now (PDict d) opp =
           Inr \<lparr>company_id = PStr ''placeholder'', opportunity_id = opp_id opp,
                relevance_score = Fin 0,
                reasoning = PStr (''Analysis unavailable: ''
                              @ str_exc (AttributeError (type_name v) ''get'')),
                match_status = ''pending'', created_at = Some now\<rparr>"
    using h by (simp add: score_by_reply bind_err_def raised_def)
next
  fix c s raw e
  assume "oracle_reply env create (PDict d) opp = Inr (Some c) \<and> c \<noteq> []
          \<and> json_loads env c = Inr (PDict s) \<and> map_of s ''relevance_score'' = Some raw
          \<and> clamp_score raw = Inl e"
  then show "score_opportunity_relevance env create now (PDict d) opp =
           Inr \<lparr>company_id = PStr ''placeholder'', opportunity_id = opp_id opp,
                relevance_score = Fin 0,
                reasoning = PStr (''Analysis unavailable: '' @ str_exc e),
                match_status = ''pending'', created_at = Some now\<rparr>"
    by (simp add: score_by_reply bind_err_def raised_def dict_get_def)
next
  assume "oracle_reply env create (PDict d) opp = Inr None
        \<or> oracle_reply env create (PDict d) opp = Inr (Some [])"
  then show "score_opportunity_relevance env create now (PDict d) opp =
           Inr \<lparr>company_id = PStr ''placeholder'', opportunity_id = opp_id opp,
                relevance_score = Fin 0,
                reasoning = PStr ''No analysis available'',
                match_status = ''pending'', created_at = Some now\<rparr>"
    by (auto simp: score_by_reply bind_err_def dict_get_def clamp_score_def py_min_def py_max_def)
qed

theorem scoring_failure_gives_zero_match_witness:
  "score_opportunity_relevance stub_env (stub_client 1) 1001 (PDict [])
     (stub_opportunity ''X'' ''body'') =
   Inr \<lparr>company_id = PStr ''placeholder'', opportunity_id = ''X'',
        relevance_score = Fin 0,
        reasoning = PStr ''Analysis unavailable: Request timed out.'',
        match_status = ''pending'', created_at = Some 1001\<rparr>
   \<and> score_opportunity_relevance stub_env (stub_client 10) 1010 (PDict [])
     (stub_opportunity ''X'' ''body'') =
   Inr \<lparr>company_id = PStr ''placeholder'', opportunity_id = ''X'',
        relevance_score = Fin 0,
        reasoning = PStr ''No analysis available'',
        match_status = ''pending'', created_at = Some 1010\<rparr>"
proof -
  have 1: "score_opportunity_relevance stub_env (stub_client 1) 1001 (PDict [])
     (stub_opportunity ''X'' ''body'') =
   Inr \<lparr>company_id = PStr ''placeholder'', opportunity_id = opp_id (stub_opportunity ''X'' ''body''),
        relevance_score = Fin 0,
        reasoning = PStr (''Analysis unavailable: '' @ ''Request timed out.''),
        match_status = ''pending'', created_at = Some 1001\<rparr>"
    using scoring_failure_gives_zero_match[of stub_env "stub_client 1" 1001 "[]"
        "stub_opportunity ''X'' ''body''"] stub_reply_1[of "[]" "stub_opportunity ''X'' ''body''"]
    by blast
  have 2: "score_opportunity_relevance stub_env (stub_client 10) 1010 (PDict [])
     (stub_opportunity ''X'' ''body'') =
   Inr \<lparr>company_id = PStr ''placeholder'', opportunity_id = opp_id (stub_opportunity ''X'' ''body''),
        relevance_score = Fin 0,
        reasoning = PStr ''No analysis available'',
        match_status = ''pending'', created_at = Some 1010\<rparr>"
    using scoring_failure_gives_zero_match[of stub_env "stub_client 10" 1010 "[]"
        "stub_opportunity ''X'' ''body''"] stub_reply_10[of "[]" "stub_opportunity ''X'' ''body''"]
    by blast
  show ?thesis using 1 2 by (simp add: stub_opportunity_def)
qed

subsection \<open>The prompt of the scorer\<close>

lemma take_500_empty: "take 500 c1 = take 500 c2 \<Longrightarrow> (c1 = []) = (c2 = [])"
  by (cases c1; cases c2) auto

lemma content_preview_take:
  "take 500 c1 = take 500 c2 \<Longrightarrow>
     content_preview (opp\<lparr>content := c1\<rparr>) = content_preview (opp\<lparr>content := c2\<rparr>)"
  using take_500_empty[of c1 c2] by (simp add: content_preview_def)

lemma scoring_prompt_head_content:
  "scoring_prompt_head env a (opp\<lparr>content := c\<rparr>) = scoring_prompt_head env a opp"
  by (simp add: scoring_prompt_head_def)

lemma scoring_prompt_take:
  "take 500 c1 = take 500 c2 \<Longrightarrow>
     scoring_prompt env a (opp\<lparr>content := c1\<rparr>) = scoring_prompt env a (opp\<lparr>content := c2\<rparr>)"
  by (simp add: scoring_prompt_def scoring_prompt_head_content content_preview_take[of c1 c2])

lemma score_try_content:
  "score_try env create now p (opp\<lparr>content := c\<rparr>) = score_try env create now p opp"
  by (simp add: score_try_def)

text \<open>
  Claim C9. The prompt sent to the scoring oracle is a head that does not depend on the
  opportunity's content, then the content preview, then a fixed tail. The preview is the
  first 500 characters of the content, or \<^verbatim>\<open>No content\<close> when the content is empty, so
  it is never longer than 500 characters. Two opportunities that differ only in their
  content beyond the first 500 characters give the same prompt, and the same result of
  the scorer for every oracle.
\<close>

theorem content_preview_at_most_500:
  "(\<exists>head. scoring_prompt_head env (PDict d) opp = Inr head
       \<and> (\<forall>c. scoring_prompt_head env (PDict d) (opp\<lparr>content := c\<rparr>) = Inr head)
       \<and> scoring_prompt env (PDict d) opp = Inr (head @ content_preview opp @ scoring_prompt_tail))
   \<and> length (content_preview opp) \<le> 500
   \<and> (content opp \<noteq> [] \<longrightarrow> content_preview opp = take 500 (content opp))
   \<and> (content opp = [] \<longrightarrow> content_preview opp = ''No content'')
   \<and> (\<forall>a c1 c2. take 500 c1 = take 500 c2 \<longrightarrow>
         scoring_prompt env a (opp\<lparr>content := c1\<rparr>) = scoring_prompt env a (opp\<lparr>content := c2\<rparr>))
   \<and> (\<forall>a c1 c2. take 500 c1 = take 500 c2 \<longrightarrow>
         score_opportunity_relevance env create now a (opp\<lparr>content := c1\<rparr>)
           = score_opportunity_relevance env create now a (opp\<lparr>content := c2\<rparr>))"
proof (intro conjI allI impI)
  obtain head where h: "scoring_prompt_head env (PDict d) opp = Inr head"
    using scoring_prompt_head_dict by blast
  then show "\<exists>head. scoring_prompt_head env (PDict d) opp = Inr head
       \<and> (\<forall>c. scoring_prompt_head env (PDict d) (opp\<lparr>content := c\<rparr>) = Inr head)
       \<and> scoring_prompt env (PDict d) opp = Inr (head @ content_preview opp @ scoring_prompt_tail)"
    by (simp add: scoring_prompt_head_content scoring_prompt_def bind_err_def)
next
  show "length (content_preview opp) \<le> 500"
    by (simp add: content_preview_def)
next
  assume "content opp \<noteq> []"
  then show "content_preview opp = take 500 (content opp)"
    by (simp add: content_preview_def)
next
  assume "content opp = []"
  then show "content_preview opp = ''No content''"
    by (simp add: content_preview_def)
next
  fix a c1 c2 assume "take 500 c1 = (take 500 c2 :: string)"
  then show "scoring_prompt env a (opp\<lparr>content := c1\<rparr>) = scoring_prompt env a (opp\<lparr>content := c2\<rparr>)"
    by (rule scoring_prompt_take)
next
  fix a c1 c2 assume "take 500 c1 = (take 500 c2 :: string)"
  then have "scoring_prompt env a (opp\<lparr>content := c1\<rparr>) = scoring_prompt env a (opp\<lparr>content := c2\<rparr>)"
    by (rule scoring_prompt_take)
  then show "score_opportunity_relevance env create now a (opp\<lparr>content := c1\<rparr>)
           = score_opportunity_relevance env create now a (opp\<lparr>content := c2\<rparr>)"
    by (cases "scoring_prompt env a (opp\<lparr>content := c2\<rparr>)")
       (simp_all add: score_opportunity_relevance_def score_try_content bind_err_def split: sum.splits)
qed

theorem content_preview_at_most_500_witness:
  "scoring_prompt stub_env (PDict []) (stub_opportunity ''A'' (replicate 500 (CHR ''x'') @ ''secret''))
     = scoring_prompt stub_env (PDict []) (stub_opportunity ''A'' (replicate 500 (CHR ''x'') @ ''other''))
   \<and> content_preview (stub_opportunity ''A'' (replicate 500 (CHR ''x'') @ ''secret''))
       = replicate 500 (CHR ''x'')
   \<and> content_preview (stub_opportunity ''A'' []) = ''No content''"
proof -
  let ?o = "stub_opportunity ''A'' []"
  have t: "take 500 (replicate 500 (CHR ''x'') @ ''secret'') = take 500 (replicate 500 (CHR ''x'') @ ''other'')"
    by simp
  have u: "\<And>c. ?o\<lparr>content := c\<rparr> = stub_opportunity ''A'' c"
    by (simp add: stub_opportunity_def)
  have 1: "scoring_prompt stub_env (PDict []) (?o\<lparr>content := replicate 500 (CHR ''x'') @ ''secret''\<rparr>)
     = scoring_prompt stub_env (PDict []) (?o\<lparr>content := replicate 500 (CHR ''x'') @ ''other''\<rparr>)"
    using content_preview_at_most_500[of stub_env "[]" ?o] t by blast
  have c: "content (stub_opportunity ''A'' (replicate 500 (CHR ''x'') @ ''secret'')) \<noteq> []"
    by (simp add: stub_opportunity_def)
  have 2: "content_preview (stub_opportunity ''A'' (replicate 500 (CHR ''x'') @ ''secret''))
       = take 500 (content (stub_opportunity ''A'' (replicate 500 (CHR ''x'') @ ''secret'')))"
    using content_preview_at_most_500[of stub_env "[]"
        "stub_opportunity ''A'' (replicate 500 (CHR ''x'') @ ''secret'')"] c by blast
  have e: "content ?o = []"
    by (simp add: stub_opportunity_def)
  have 3: "content_preview ?o = ''No content''"
    using content_preview_at_most_500[of stub_env "[]" ?o] e by blast
  show ?thesis using 1 2 3 by (simp add: u stub_opportunity_def)
qed

subsection \<open>A run against the stub oracle\<close>

lemma find_matches_by_components:
  assumes "analyze_company_profile env (client 0) profile = Inr a"
    and name: "getattr profile ''company_name'' = Inr name"
    and "score_each env client clock a name (Suc 0) opps = Inr M"
  shows "find_matches_for_company env client clock profile opps t = Inr (rank M t)"
  using assms
  by (simp add: find_matches_for_company_def bind_err_def score_loop_score_each[OF name] rank_def)

lemma stub_profile_text: "\<exists>ptext. profile_text stub_env stub_profile = Inr ptext"
  by (simp add: profile_text_def getattr_def stub_profile_def bind_err_def str_join_def)

lemma stub_company_name: "getattr stub_profile ''company_name'' = Inr (PStr ''Acme'')"
  by (simp add: getattr_def stub_profile_def)


lemma stub_analysis:
  "analyze_company_profile stub_env (stub_client 0) stub_profile =
     Inr (PDict [(''industry_focus'', PStr ''software''), (''business_stage'', PStr ''growth'')])"
proof -
  obtain ptext where p: "profile_text stub_env stub_profile = Inr ptext"
    using stub_profile_text by blast
  show ?thesis
    by (simp add: analyze_company_profile_def p bind_err_def analyze_try_def stub_client_def
        raised_def json_loads_stub_env stub_loads_def)
qed

lemma stub_score_raises:
  "score_opportunity_relevance stub_env (stub_client 1) now (PDict d) opp =
     Inr \<lparr>company_id = PStr ''placeholder'', opportunity_id = opp_id opp,
          relevance_score = Fin 0,
          reasoning = PStr ''Analysis unavailable: Request timed out.'',
          match_status = ''pending'', created_at = Some now\<rparr>"
  using stub_reply_1[of d opp] by (simp add: score_by_reply bind_err_def)

lemma stub_reply_2:
  "oracle_reply stub_env (stub_client 2) (PDict d) opp
     = Inr (Some ''{\"relevance_score\": 0.8, \"reasoning\": \"regional supplier\"}'')"
  by (rule trans[OF oracle_reply_const[where r = "stub_client 2 undefined"]])
     (simp_all add: stub_client_def raised_def)

lemma stub_reply_3:
  "oracle_reply stub_env (stub_client 3) (PDict d) opp
     = Inr (Some ''{\"relevance_score\": 0.9, \"reasoning\": \"core market\"}'')"
  by (rule trans[OF oracle_reply_const[where r = "stub_client 3 undefined"]])
     (simp_all add: stub_client_def raised_def)

lemma stub_reply_4:
  "oracle_reply stub_env (stub_client 4) (PDict d) opp
     = Inr (Some ''{\"relevance_score\": 0.8, \"reasoning\": \"trade fair\"}'')"
  by (rule trans[OF oracle_reply_const[where r = "stub_client 4 undefined"]])
     (simp_all add: stub_client_def raised_def)

lemma stub_score_2:
  "score_opportunity_relevance stub_env (stub_client 2) now (PDict d) opp =
     Inr \<lparr>company_id = PStr ''placeholder'', opportunity_id = opp_id opp,
          relevance_score = Fin (3602879701896397 / 4503599627370496),
          reasoning = PStr ''regional supplier'',
          match_status = ''pending'', created_at = Some now\<rparr>"
  by (simp add: score_by_reply stub_reply_2 bind_err_def raised_def json_loads_stub_env
      stub_loads_def dict_get_def clamp_score_def py_min_def py_max_def)

lemma stub_score_3:
  "score_opportunity_relevance stub_env (stub_client 3) now (PDict d) opp =
     Inr \<lparr>company_id = PStr ''placeholder'', opportunity_id = opp_id opp,
          relevance_score = Fin (8106479329266893 / 9007199254740992),
          reasoning = PStr ''core market'',
          match_status = ''pending'', created_at = Some now\<rparr>"
  by (simp add: score_by_reply stub_reply_3 bind_err_def raised_def json_loads_stub_env
      stub_loads_def dict_get_def clamp_score_def py_min_def py_max_def)

lemma stub_score_4:
  "score_opportunity_relevance stub_env (stub_client 4) now (PDict d) opp =
     Inr \<lparr>company_id = PStr ''placeholder'', opportunity_id = opp_id opp,
          relevance_score = Fin (3602879701896397 / 4503599627370496),
          reasoning = PStr ''trade fair'',
          match_status = ''pending'', created_at = Some now\<rparr>"
  by (simp add: score_by_reply stub_reply_4 bind_err_def raised_def json_loads_stub_env
      stub_loads_def dict_get_def clamp_score_def py_min_def py_max_def)

lemma stub_score_each:
  "score_each stub_env stub_client stub_clock
      (PDict [(''industry_focus'', PStr ''software''), (''business_stage'', PStr ''growth'')])
      (PStr ''Acme'') (Suc 0) stub_catalog =
   Inr [stub_match ''X'' (Fin 0) ''Analysis unavailable: Request timed out.'' 1001,
        stub_match ''Y'' (Fin (3602879701896397 / 4503599627370496)) ''regional supplier'' 1002,
        stub_match ''Z'' (Fin (8106479329266893 / 9007199254740992)) ''core market'' 1003,
        stub_match ''K'' (Fin (3602879701896397 / 4503599627370496)) ''trade fair'' 1004]"
proof -
  have k: "Suc (Suc 0) = 2" "Suc 2 = 3" "Suc 3 = 4" by simp_all
  show ?thesis
    using stub_score_raises stub_score_2 stub_score_3 stub_score_4
    by (simp add: k stub_clock_def stub_opportunity_def stub_catalog_def stub_match_def)
qed

lemma stub_run:
  "find_matches_for_company stub_env stub_client stub_clock stub_profile stub_catalog
     default_min_score = Inr stub_ranked"
  by (simp add: find_matches_by_components[OF stub_analysis stub_company_name stub_score_each]
      rank_def default_min_score_def stub_ranked_def stub_match_def)

subsection \<open>The returned list\<close>

lemma find_matches_components:
  assumes "find_matches_for_company env client clock profile opps t = Inr out"
  shows "\<exists>a name M. analyze_company_profile env (client 0) profile = Inr a
           \<and> getattr profile ''company_name'' = Inr name
           \<and> score_each env client clock a name 1 opps = Inr M
           \<and> length M = length opps
           \<and> (\<forall>i<length opps. \<exists>m.
                 score_opportunity_relevance env (client (Suc i)) (clock (Suc i)) a (opps ! i) = Inr m
                 \<and> M ! i = m\<lparr>company_id := name\<rparr>)
           \<and> out = rank M t"
proof -
  obtain a name M where
    a: "analyze_company_profile env (client 0) profile = Inr a" and
    n: "getattr profile ''company_name'' = Inr name" and
    M: "score_each env client clock a name 1 opps = Inr M" and
    out: "out = rank M t"
    using find_matches_refines[OF assms] by blast
  have "length M = length opps \<and>
     (\<forall>i<length opps. \<exists>m. score_opportunity_relevance env (client (1 + i)) (clock (1 + i)) a (opps ! i) = Inr m
          \<and> M ! i = m\<lparr>company_id := name\<rparr>)"
    by (rule score_each_nth[OF M])
  then show ?thesis using a n M out by auto
qed

text \<open>
  Claim C2. When \<^verbatim>\<open>find_matches_for_company\<close> returns a list, for any profile, any list of
  opportunities and any threshold \<open>min_score\<close> (0.6 when none is given), every \<^verbatim>\<open>Match\<close> of
  the list has \<open>relevance_score >= min_score\<close>, and the list is \<open>rank M min_score\<close> for the
  list \<open>M\<close> of the per-opportunity scorings of the input, so that it is a subset of the
  members of \<open>M\<close> at or above the threshold.
\<close>

theorem matches_at_or_above_threshold:
  assumes "find_matches_for_company env client clock profile opps t = Inr out"
  shows "(\<forall>m\<in>set out. fl_ge (relevance_score m) t)
     \<and> (\<exists>a name M. analyze_company_profile env (client 0) profile = Inr a
           \<and> getattr profile ''company_name'' = Inr name
           \<and> score_each env client clock a name 1 opps = Inr M
           \<and> length M = length opps
           \<and> (\<forall>i<length opps. \<exists>m.
                 score_opportunity_relevance env (client (Suc i)) (clock (Suc i)) a (opps ! i) = Inr m
                 \<and> M ! i = m\<lparr>company_id := name\<rparr>)
           \<and> out = rank M t
           \<and> set (rank M t) \<subseteq> {m \<in> set M. fl_ge (relevance_score m) t})"
proof -
  obtain a name M where
    c: "analyze_company_profile env (client 0) profile = Inr a"
       "getattr profile ''company_name'' = Inr name"
       "score_each env client clock a name 1 opps = Inr M"
       "length M = length opps"
       "\<forall>i<length opps. \<exists>m.
                 score_opportunity_relevance env (client (Suc i)) (clock (Suc i)) a (opps ! i) = Inr m
                 \<and> M ! i = m\<lparr>company_id := name\<rparr>"
       "out = rank M t"
    using find_matches_components[OF assms] by blast
  have s: "set (rank M t) \<subseteq> {m \<in> set M. fl_ge (relevance_score m) t}"
    by (simp add: set_rank)
  have "\<forall>m\<in>set out. fl_ge (relevance_score m) t"
    using c(6) by (simp add: set_rank)
  then show ?thesis using c s by blast
qed

theorem matches_at_or_above_threshold_witness:
  "find_matches_for_company stub_env stub_client stub_clock stub_profile stub_catalog
     default_min_score = Inr stub_ranked
   \<and> length stub_ranked = 3
   \<and> list_all (\<lambda>m. fl_ge (relevance_score m) default_min_score) stub_ranked"
  using matches_at_or_above_threshold[OF stub_run] stub_run
  by (simp add: list_all_iff stub_ranked_def)

text \<open>
  Claim C3. The list returned by \<^verbatim>\<open>find_matches_for_company\<close> is sorted descending by
  \<open>relevance_score\<close>: at positions \<open>i < j\<close> the score at \<open>i\<close> is \<open>>=\<close> the score at \<open>j\<close>.
  Matches with equal scores keep their input order: for each score, the Matches of the
  output with that score are, in the same order, the Matches with that score among the
  scorings \<open>M\<close> of the input list (the scoring of the \<open>i\<close>-th opportunity at position \<open>i\<close>)
  that reach the threshold.
\<close>

theorem matches_sorted_descending_stable:
  assumes "find_matches_for_company env client clock profile opps t = Inr out"
  shows "sorted_desc out
     \<and> (\<forall>i j. i < j \<and> j < length out \<longrightarrow>
            fl_ge (relevance_score (out ! i)) (relevance_score (out ! j)))
     \<and> (\<exists>a name M. analyze_company_profile env (client 0) profile = Inr a
           \<and> getattr profile ''company_name'' = Inr name
           \<and> score_each env client clock a name 1 opps = Inr M
           \<and> length M = length opps
           \<and> (\<forall>i<length opps. \<exists>m.
                 score_opportunity_relevance env (client (Suc i)) (clock (Suc i)) a (opps ! i) = Inr m
                 \<and> M ! i = m\<lparr>company_id := name\<rparr>)
           \<and> (\<forall>s. filter (\<lambda>m. relevance_score m = s) out =
                    filter (\<lambda>m. relevance_score m = s)
                      (filter (\<lambda>m. fl_ge (relevance_score m) t) M)))"
proof -
  obtain a name M where
    c: "analyze_company_profile env (client 0) profile = Inr a"
       "getattr profile ''company_name'' = Inr name"
       "score_each env client clock a name 1 opps = Inr M"
       "out = rank M t"
       "length M = length opps"
       "\<forall>i<length opps. \<exists>m.
                 score_opportunity_relevance env (client (Suc i)) (clock (Suc i)) a (opps ! i) = Inr m
                 \<and> M ! i = m\<lparr>company_id := name\<rparr>"
    using find_matches_components[OF assms] by blast
  have s: "sorted_desc out"
    using c(4) by (simp add: sorted_desc_rank)
  have n: "\<forall>i j. i < j \<and> j < length out \<longrightarrow>
            fl_ge (relevance_score (out ! i)) (relevance_score (out ! j))"
    using sorted_desc_nth[OF s] by blast
  have st: "\<forall>s. filter (\<lambda>m. relevance_score m = s) out =
                    filter (\<lambda>m. relevance_score m = s)
                      (filter (\<lambda>m. fl_ge (relevance_score m) t) M)"
    unfolding c(4) rank_def by (rule allI) (rule sort_reverse_stable)
  show ?thesis using s n st c(1,2,3,5,6) by blast
qed

theorem matches_sorted_descending_stable_witness:
  "find_matches_for_company stub_env stub_client stub_clock stub_profile stub_catalog
     default_min_score = Inr stub_ranked
   \<and> map opportunity_id stub_ranked = [''Z'', ''Y'', ''K'']
   \<and> sorted_desc stub_ranked"
  using matches_sorted_descending_stable[OF stub_run] stub_run
  by (simp add: stub_ranked_def stub_match_def)

text \<open>
  Claim C8. The ranking step, the threshold filter followed by the descending sort, is
  idempotent: ranking a ranked list again with the same threshold gives the same list, in
  the same order. In particular ranking the list that \<^verbatim>\<open>find_matches_for_company\<close> returns
  gives that list.
\<close>

theorem rank_idempotent:
  "rank (rank M t) t = rank M t
   \<and> (find_matches_for_company env client clock profile opps t = Inr out \<longrightarrow> rank out t = out)"
proof
  show "rank (rank M t) t = rank M t" by (rule rank_idem)
next
  show "find_matches_for_company env client clock profile opps t = Inr out \<longrightarrow> rank out t = out"
  proof
    assume "find_matches_for_company env client clock profile opps t = Inr out"
    then obtain M' where "out = rank M' t"
      using find_matches_refines by blast
    then show "rank out t = out" by (simp add: rank_idem)
  qed
qed

theorem rank_idempotent_witness:
  "find_matches_for_company stub_env stub_client stub_clock stub_profile stub_catalog
     default_min_score = Inr stub_ranked
   \<and> rank stub_ranked default_min_score = stub_ranked"
  using rank_idempotent[of _ default_min_score stub_env stub_client stub_clock stub_profile
      stub_catalog stub_ranked] stub_run
  by blast

text \<open>
  Claim C10. In every \<^verbatim>\<open>Match\<close> of the list returned by \<^verbatim>\<open>find_matches_for_company\<close>,
  \<open>company_id\<close> is the \<^verbatim>\<open>company_name\<close> of the profile, which replaces the scorer's
  \<^verbatim>\<open>placeholder\<close>, and \<open>opportunity_id\<close> is the id of the opportunity the \<^verbatim>\<open>Match\<close> was
  scored against. The scorer sets both the same way whether the oracle answered or
  failed.
\<close>

theorem match_ids:
  "(find_matches_for_company env client clock profile opps t = Inr out \<longrightarrow>
      (\<exists>a name. analyze_company_profile env (client 0) profile = Inr a
         \<and> getattr profile ''company_name'' = Inr name
         \<and> (\<forall>m\<in>set out. company_id m = name
               \<and> (\<exists>i<length opps. \<exists>m0.
                     score_opportunity_relevance env (client (Suc i)) (clock (Suc i)) a (opps ! i) = Inr m0
                     \<and> m = m0\<lparr>company_id := name\<rparr>
                     \<and> opportunity_id m = opp_id (opps ! i)))))
   \<and> (\<forall>create now a opp m. score_opportunity_relevance env create now a opp = Inr m \<longrightarrow>
         company_id m = PStr ''placeholder'' \<and> opportunity_id m = opp_id opp)"
proof (intro conjI impI allI)
  assume r: "find_matches_for_company env client clock profile opps t = Inr out"
  obtain a name M where
    c: "analyze_company_profile env (client 0) profile = Inr a"
       "getattr profile ''company_name'' = Inr name"
       "length M = length opps"
       "\<forall>i<length opps. \<exists>m.
                 score_opportunity_relevance env (client (Suc i)) (clock (Suc i)) a (opps ! i) = Inr m
                 \<and> M ! i = m\<lparr>company_id := name\<rparr>"
       "out = rank M t"
    using find_matches_components[OF r] by blast
  have "\<forall>m\<in>set out. company_id m = name
               \<and> (\<exists>i<length opps. \<exists>m0.
                     score_opportunity_relevance env (client (Suc i)) (clock (Suc i)) a (opps ! i) = Inr m0
                     \<and> m = m0\<lparr>company_id := name\<rparr>
                     \<and> opportunity_id m = opp_id (opps ! i))"
  proof
    fix m assume "m \<in> set out"
    then have "m \<in> set M" using c(5) by (simp add: set_rank)
    then obtain i where i: "i < length M" "M ! i = m"
      by (auto simp: in_set_conv_nth)
    then obtain m0 where
      m0: "score_opportunity_relevance env (client (Suc i)) (clock (Suc i)) a (opps ! i) = Inr m0"
          "M ! i = m0\<lparr>company_id := name\<rparr>"
      using c(3,4) by auto
    have "opportunity_id m0 = opp_id (opps ! i)"
      using score_ids[OF m0(1)] by simp
    then show "company_id m = name
               \<and> (\<exists>i<length opps. \<exists>m0.
                     score_opportunity_relevance env (client (Suc i)) (clock (Suc i)) a (opps ! i) = Inr m0
                     \<and> m = m0\<lparr>company_id := name\<rparr>
                     \<and> opportunity_id m = opp_id (opps ! i))"
      using i m0 c(3) by auto
  qed
  then show "\<exists>a name. analyze_company_profile env (client 0) profile = Inr a
         \<and> getattr profile ''company_name'' = Inr name
         \<and> (\<forall>m\<in>set out. company_id m = name
               \<and> (\<exists>i<length opps. \<exists>m0.
                     score_opportunity_relevance env (client (Suc i)) (clock (Suc i)) a (opps ! i) = Inr m0
                     \<and> m = m0\<lparr>company_id := name\<rparr>
                     \<and> opportunity_id m = opp_id (opps ! i)))"
    using c(1,2) by blast
next
  fix create now a opp m
  assume "score_opportunity_relevance env create now a opp = Inr m"
  then show "company_id m = PStr ''placeholder''" using score_ids by blast
next
  fix create now a opp m
  assume "score_opportunity_relevance env create now a opp = Inr m"
  then show "opportunity_id m = opp_id opp" using score_ids by blast
qed

theorem match_ids_witness:
  "find_matches_for_company stub_env stub_client stub_clock stub_profile stub_catalog
     default_min_score = Inr stub_ranked
   \<and> getattr stub_profile ''company_name'' = Inr (PStr ''Acme'')
   \<and> list_all (\<lambda>m. company_id m = PStr ''Acme'') stub_ranked"
proof -
  from match_ids[of stub_env stub_client stub_clock stub_profile stub_catalog default_min_score
      stub_ranked] stub_run
  obtain name where
    "getattr stub_profile ''company_name'' = Inr name"
    "\<forall>m\<in>set stub_ranked. company_id m = name"
    by blast
  then show ?thesis using stub_run by (simp add: stub_company_name list_all_iff)
qed



subsection \<open>Failed scorings and the threshold\<close>

lemma score_failed_zero:
  "oracle_reply env create (PDict d) opp = Inl (Raised msg) \<Longrightarrow>
   score_opportunity_relevance env create now (PDict d) opp = Inr m \<Longrightarrow>
   relevance_score m = Fin 0"
  by (auto simp: score_by_reply bind_err_def)

text \<open>
  The run that the specification describes for the isolation of oracle failures, with the
  default threshold: the scoring of X raises, Y and K score 0.8, Z scores 0.9. The scorer
  gives X its zero-score \<^verbatim>\<open>Match\<close>, and the returned list has Z, Y and K and no \<^verbatim>\<open>Match\<close>
  for X.
\<close>

theorem failed_opportunity_omitted:
  "score_opportunity_relevance stub_env (stub_client 1) (stub_clock 1)
      (PDict [(''industry_focus'', PStr ''software''), (''business_stage'', PStr ''growth'')])
      (stub_opportunity ''X'' ''x'') =
     Inr \<lparr>company_id = PStr ''placeholder'', opportunity_id = ''X'', relevance_score = Fin 0,
          reasoning = PStr ''Analysis unavailable: Request timed out.'',
          match_status = ''pending'', created_at = Some 1001\<rparr>
   \<and> find_matches_for_company stub_env stub_client stub_clock stub_profile
        [stub_opportunity ''X'' ''x'', stub_opportunity ''Y'' ''y'', stub_opportunity ''Z'' ''z'',
         stub_opportunity ''K'' ''k''] default_min_score =
     Inr [stub_match ''Z'' (Fin (8106479329266893 / 9007199254740992)) ''core market'' 1003,
          stub_match ''Y'' (Fin (3602879701896397 / 4503599627370496)) ''regional supplier'' 1002,
          stub_match ''K'' (Fin (3602879701896397 / 4503599627370496)) ''trade fair'' 1004]
   \<and> ''X'' \<notin> set (map opportunity_id
        [stub_match ''Z'' (Fin (8106479329266893 / 9007199254740992)) ''core market'' 1003,
         stub_match ''Y'' (Fin (3602879701896397 / 4503599627370496)) ''regional supplier'' 1002,
         stub_match ''K'' (Fin (3602879701896397 / 4503599627370496)) ''trade fair'' 1004])"
proof (intro conjI)
  show "score_opportunity_relevance stub_env (stub_client 1) (stub_clock 1)
      (PDict [(''industry_focus'', PStr ''software''), (''business_stage'', PStr ''growth'')])
      (stub_opportunity ''X'' ''x'') =
     Inr \<lparr>company_id = PStr ''placeholder'', opportunity_id = ''X'', relevance_score = Fin 0,
          reasoning = PStr ''Analysis unavailable: Request timed out.'',
          match_status = ''pending'', created_at = Some 1001\<rparr>"
    by (simp add: stub_score_raises stub_clock_def stub_opportunity_def del: One_nat_def)
next
  show "find_matches_for_company stub_env stub_client stub_clock stub_profile
        [stub_opportunity ''X'' ''x'', stub_opportunity ''Y'' ''y'', stub_opportunity ''Z'' ''z'',
         stub_opportunity ''K'' ''k''] default_min_score =
     Inr [stub_match ''Z'' (Fin (8106479329266893 / 9007199254740992)) ''core market'' 1003,
          stub_match ''Y'' (Fin (3602879701896397 / 4503599627370496)) ''regional supplier'' 1002,
          stub_match ''K'' (Fin (3602879701896397 / 4503599627370496)) ''trade fair'' 1004]"
    using stub_run by (simp only: stub_catalog_def stub_ranked_def)
next
  show "''X'' \<notin> set (map opportunity_id
        [stub_match ''Z'' (Fin (8106479329266893 / 9007199254740992)) ''core market'' 1003,
         stub_match ''Y'' (Fin (3602879701896397 / 4503599627370496)) ''regional supplier'' 1002,
         stub_match ''K'' (Fin (3602879701896397 / 4503599627370496)) ''trade fair'' 1004])"
    by (simp add: stub_match_def)
qed


text \<open>
  Claim C5, as the code has it. When the analysis is a \<^verbatim>\<open>dict\<close>,
  \<^verbatim>\<open>find_matches_for_company\<close> returns a ranked list whatever the scoring oracle does: no
  failure of the oracle fails the batch. The \<^verbatim>\<open>Match\<close> of an opportunity is in the list
  exactly when its score is \<open>>= min_score\<close>. An opportunity on which the oracle raised
  has the score 0.0, so its zero-score \<^verbatim>\<open>Match\<close> is in the list exactly when
  \<open>0.0 >= min_score\<close>; with a positive threshold it is left out.
\<close>

theorem failed_match_listed_iff_threshold_allows:
  assumes "analyze_company_profile env (client 0) profile = Inr (PDict d)"
  shows "\<exists>out name. find_matches_for_company env client clock profile opps t = Inr out
     \<and> getattr profile ''company_name'' = Inr name
     \<and> sorted_desc out
     \<and> (\<forall>i<length opps. \<exists>m.
           score_opportunity_relevance env (client (Suc i)) (clock (Suc i)) (PDict d) (opps ! i) = Inr m
           \<and> ((m\<lparr>company_id := name\<rparr> \<in> set out) = fl_ge (relevance_score m) t)
           \<and> ((\<exists>msg. oracle_reply env (client (Suc i)) (PDict d) (opps ! i) = Inl (Raised msg)) \<longrightarrow>
                 relevance_score m = Fin 0
                 \<and> ((m\<lparr>company_id := name\<rparr> \<in> set out) = fl_ge (Fin 0) t)))"
proof -
  obtain name M where
    n: "getattr profile ''company_name'' = Inr name" and
    M: "score_each env client clock (PDict d) name 1 opps = Inr M" and
    r: "find_matches_for_company env client clock profile opps t = Inr (rank M t)"
    using find_matches_dict[where env = env and client = client and profile = profile
        and d = d and clock = clock and opps = opps and t = t] assms
    by blast
  have nth: "length M = length opps \<and>
     (\<forall>i<length opps. \<exists>m. score_opportunity_relevance env (client (1 + i)) (clock (1 + i)) (PDict d) (opps ! i) = Inr m
          \<and> M ! i = m\<lparr>company_id := name\<rparr>)"
    by (rule score_each_nth[OF M])
  have each: "\<forall>i<length opps. \<exists>m.
           score_opportunity_relevance env (client (Suc i)) (clock (Suc i)) (PDict d) (opps ! i) = Inr m
           \<and> ((m\<lparr>company_id := name\<rparr> \<in> set (rank M t)) = fl_ge (relevance_score m) t)
           \<and> ((\<exists>msg. oracle_reply env (client (Suc i)) (PDict d) (opps ! i) = Inl (Raised msg)) \<longrightarrow>
                 relevance_score m = Fin 0
                 \<and> ((m\<lparr>company_id := name\<rparr> \<in> set (rank M t)) = fl_ge (Fin 0) t))"
  proof (intro allI impI)
    fix i assume i: "i < length opps"
    then obtain m where
      m: "score_opportunity_relevance env (client (Suc i)) (clock (Suc i)) (PDict d) (opps ! i) = Inr m"
         "M ! i = m\<lparr>company_id := name\<rparr>"
      using nth by auto
    have "m\<lparr>company_id := name\<rparr> \<in> set M"
      using i nth m(2) by (metis nth_mem)
    then have mem: "(m\<lparr>company_id := name\<rparr> \<in> set (rank M t)) = fl_ge (relevance_score m) t"
      by (simp add: set_rank)
    have "(\<exists>msg. oracle_reply env (client (Suc i)) (PDict d) (opps ! i) = Inl (Raised msg)) \<longrightarrow>
                 relevance_score m = Fin 0
                 \<and> ((m\<lparr>company_id := name\<rparr> \<in> set (rank M t)) = fl_ge (Fin 0) t)"
      using score_failed_zero[OF _ m(1)] mem by auto
    then show "\<exists>m.
           score_opportunity_relevance env (client (Suc i)) (clock (Suc i)) (PDict d) (opps ! i) = Inr m
           \<and> ((m\<lparr>company_id := name\<rparr> \<in> set (rank M t)) = fl_ge (relevance_score m) t)
           \<and> ((\<exists>msg. oracle_reply env (client (Suc i)) (PDict d) (opps ! i) = Inl (Raised msg)) \<longrightarrow>
                 relevance_score m = Fin 0
                 \<and> ((m\<lparr>company_id := name\<rparr> \<in> set (rank M t)) = fl_ge (Fin 0) t))"
      using m(1) mem by blast
  qed
  show ?thesis
    using r n each sorted_desc_rank[of M t] by blast
qed

theorem failed_match_listed_iff_threshold_allows_witness:
  "\<exists>out. find_matches_for_company stub_env stub_client stub_clock stub_profile stub_catalog (Fin 0)
            = Inr out
     \<and> stub_match ''X'' (Fin 0) ''Analysis unavailable: Request timed out.'' 1001 \<in> set out"
proof -
  let ?d = "[(''industry_focus'', PStr ''software''), (''business_stage'', PStr ''growth'')]"
  from failed_match_listed_iff_threshold_allows[where env = stub_env and client = stub_client
      and profile = stub_profile and d = ?d and clock = stub_clock and opps = stub_catalog
      and t = "Fin 0"] stub_analysis
  obtain out name where
    o: "find_matches_for_company stub_env stub_client stub_clock stub_profile stub_catalog (Fin 0) = Inr out"
       "getattr stub_profile ''company_name'' = Inr name"
       "\<forall>i<length stub_catalog. \<exists>m.
           score_opportunity_relevance stub_env (stub_client (Suc i)) (stub_clock (Suc i)) (PDict ?d) (stub_catalog ! i) = Inr m
           \<and> ((m\<lparr>company_id := name\<rparr> \<in> set out) = fl_ge (relevance_score m) (Fin 0))
           \<and> ((\<exists>msg. oracle_reply stub_env (stub_client (Suc i)) (PDict ?d) (stub_catalog ! i) = Inl (Raised msg)) \<longrightarrow>
                 relevance_score m = Fin 0
                 \<and> ((m\<lparr>company_id := name\<rparr> \<in> set out) = fl_ge (Fin 0) (Fin 0)))"
    by blast
  have name: "name = PStr ''Acme''"
    using o(2) by (simp add: stub_company_name)
  have "0 < length stub_catalog" by (simp add: stub_catalog_def)
  then obtain m where
    m: "score_opportunity_relevance stub_env (stub_client (Suc 0)) (stub_clock (Suc 0)) (PDict ?d) (stub_catalog ! 0) = Inr m"
       "(\<exists>msg. oracle_reply stub_env (stub_client (Suc 0)) (PDict ?d) (stub_catalog ! 0) = Inl (Raised msg)) \<longrightarrow>
                 relevance_score m = Fin 0
                 \<and> ((m\<lparr>company_id := name\<rparr> \<in> set out) = fl_ge (Fin 0) (Fin 0))"
    using o(3) by blast
  have "oracle_reply stub_env (stub_client (Suc 0)) (PDict ?d) (stub_catalog ! 0) = Inl (Raised ''Request timed out.'')"
    using stub_reply_1[of ?d "stub_catalog ! 0"] by simp
  then have mem: "m\<lparr>company_id := name\<rparr> \<in> set out"
    using m(2) by auto
  have "m\<lparr>company_id := name\<rparr> = stub_match ''X'' (Fin 0) ''Analysis unavailable: Request timed out.'' 1001"
    using m(1) stub_score_raises[of "stub_clock (Suc 0)" ?d "stub_catalog ! 0"]
    by (simp add: name stub_match_def stub_clock_def stub_catalog_def stub_opportunity_def)
  then show ?thesis using o(1) mem by auto
qed

subsection \<open>What the analyzer returns\<close>






subsection \<open>The analyzer on the declared profile class\<close>

text \<open>
  Claim C7. \<^verbatim>\<open>analyze_company_profile\<close> is to raise nothing to its caller, whatever the
  profile. On the code, every instance of the declared class \<^verbatim>\<open>BusinessProfile\<close> makes it
  raise: the third attribute it reads, \<^verbatim>\<open>business_type\<close>, is not a field of the class, and
  the read stands before the \<^verbatim>\<open>try\<close>. The exception reaches the caller of
  \<^verbatim>\<open>find_matches_for_company\<close> too, whatever the oracle answers.
\<close>

theorem analyze_raises_on_BusinessProfile:
  "analyze_company_profile env create (BusinessProfile_object bp)
     = Inl (AttributeError ''BusinessProfile'' ''business_type'')
   \<and> find_matches_for_company env client clock (BusinessProfile_object bp) opps t
     = Inl (AttributeError ''BusinessProfile'' ''business_type'')"
proof -
  have p: "profile_text env (BusinessProfile_object bp)
             = Inl (AttributeError ''BusinessProfile'' ''business_type'')"
    by (simp add: profile_text_def getattr_def BusinessProfile_object_def bind_err_def)
  have a: "\<And>create. analyze_company_profile env create (BusinessProfile_object bp)
     = Inl (AttributeError ''BusinessProfile'' ''business_type'')"
    by (simp add: analyze_company_profile_def p bind_err_def)
  show ?thesis
    by (simp add: a find_matches_for_company_def bind_err_def)
qed

theorem analyze_raises_on_BusinessProfile_witness:
  "analyze_company_profile stub_env (stub_client 0) (BusinessProfile_object stub_business_profile)
     = Inl (AttributeError ''BusinessProfile'' ''business_type'')
   \<and> str_exc (AttributeError ''BusinessProfile'' ''business_type'')
     = [CHR 0x27] @ ''BusinessProfile'' @ [CHR 0x27] @ '' object has no attribute ''
         @ [CHR 0x27] @ ''business_type'' @ [CHR 0x27]"
  using analyze_raises_on_BusinessProfile[of stub_env "stub_client 0" stub_business_profile]
  by (simp add: quoted_def)

end
